theory Spec2Isabelle
  imports Complex_Main "HOL-Library.AList" "HOL-Library.Sublist"
begin

section \<open>The browser's persistent storage\<close>

text \<open>
  The cache of the application lives in \<^verbatim>\<open>localStorage\<close>: a finite mapping from key
  strings to text values, enumerated in insertion order. A stored text is represented by
  what the code observes of it: its length (\<^verbatim>\<open>item.length\<close>, with the empty text being
  the only falsy one) and the value \<^verbatim>\<open>JSON.parse\<close> yields for it. A parsed value is
  either a number (the text written by \<^verbatim>\<open>updateLastSync\<close>) or an object, of which the
  code reads the fields \<^verbatim>\<open>data\<close>, \<^verbatim>\<open>timestamp\<close> and \<^verbatim>\<open>expiration\<close>; a field that is
  missing reads as \<^verbatim>\<open>undefined\<close>, here \<open>None\<close>, and the two time fields are numbers
  when present. Every other parsed value (a string, an array, a boolean) reads like an
  object without these fields. A text on which \<^verbatim>\<open>JSON.parse\<close> throws
  has \<open>JSON_parse = None\<close>; the text \<^verbatim>\<open>null\<close> is counted among these, since every read of
  a field of \<^verbatim>\<open>null\<close> throws inside the same \<^verbatim>\<open>try\<close> block as the parse.
  Times are epoch milliseconds, as integers. The payload type \<open>'a\<close> is the type parameter
  \<^verbatim>\<open>T\<close> of \<^verbatim>\<open>CacheItem<T>\<close>.
\<close>

datatype 'a json =
    JNumber int
  | JObject (obj_data: "'a option") (obj_timestamp: "int option") (obj_expiration: "int option")

fun field_data :: "'a json \<Rightarrow> 'a option" where
  "field_data (JNumber n) = None"
| "field_data (JObject d t e) = d"

fun field_timestamp :: "'a json \<Rightarrow> int option" where
  "field_timestamp (JNumber n) = None"
| "field_timestamp (JObject d t e) = t"

fun field_expiration :: "'a json \<Rightarrow> int option" where
  "field_expiration (JNumber n) = None"
| "field_expiration (JObject d t e) = e"

datatype 'a stored_text = Text (text_length: nat) (JSON_parse: "'a json option")

type_synonym 'a localStorage = "(string \<times> 'a stored_text) list"

definition getItem :: "'a localStorage \<Rightarrow> string \<Rightarrow> 'a stored_text option" where
  "getItem ls key = map_of ls key"

definition setItem :: "'a localStorage \<Rightarrow> string \<Rightarrow> 'a stored_text \<Rightarrow> 'a localStorage" where
  "setItem ls key t = AList.update key t ls"

definition removeItem :: "'a localStorage \<Rightarrow> string \<Rightarrow> 'a localStorage" where
  "removeItem ls key = AList.delete key ls"

definition Object_keys :: "'a localStorage \<Rightarrow> string list" where
  "Object_keys ls = map fst ls"

text \<open>\<^verbatim>\<open>if (item)\<close>: a string is truthy unless it is empty.\<close>

definition truthy :: "'a stored_text \<Rightarrow> bool" where
  "truthy t = (0 < text_length t)"

text \<open>
  \<^verbatim>\<open>Date.now() > x.expiration\<close>: a comparison with \<^verbatim>\<open>undefined\<close> is false.
\<close>

fun now_after :: "int \<Rightarrow> int option \<Rightarrow> bool" where
  "now_after now None = False"
| "now_after now (Some e) = (now > e)"

text \<open>
  \<^verbatim>\<open>x.expiration && Date.now() > x.expiration\<close>: the guard is also false for the
  number 0.
\<close>

fun set_and_passed :: "int \<Rightarrow> int option \<Rightarrow> bool" where
  "set_and_passed now None = False"
| "set_and_passed now (Some e) = (e \<noteq> 0 \<and> now > e)"

text \<open>\<^verbatim>\<open>x.timestamp || 0\<close>\<close>

fun or_zero :: "int option \<Rightarrow> int" where
  "or_zero None = 0"
| "or_zero (Some t) = t"

text \<open>\<^verbatim>\<open>String.prototype.startsWith\<close> and \<^verbatim>\<open>String.prototype.includes\<close>\<close>

definition startsWith :: "string \<Rightarrow> string \<Rightarrow> bool" where
  "startsWith s p = (take (length p) s = p)"

fun includesStr :: "string \<Rightarrow> string \<Rightarrow> bool" where
  "includesStr [] sub = (sub = [])"
| "includesStr (c # cs) sub = (startsWith (c # cs) sub \<or> includesStr cs sub)"

text \<open>\<^verbatim>\<open>Number.prototype.toString\<close> on integers, in base 10.\<close>

fun string_of_nat :: "nat \<Rightarrow> string" where
  "string_of_nat n =
     (if n < 10 then [char_of (48 + n)]
      else string_of_nat (n div 10) @ [char_of (48 + n mod 10)])"

declare string_of_nat.simps [simp del]

definition string_of_int :: "int \<Rightarrow> string" where
  "string_of_int i =
     (if i < 0 then CHR ''-'' # string_of_nat (nat (- i)) else string_of_nat (nat i))"

section \<open>CacheService\<close>

definition RECOMMENDATIONS :: string where
  "RECOMMENDATIONS = ''local-guide-recommendations''"

definition ESSENTIAL_DATA :: string where
  "ESSENTIAL_DATA = ''local-guide-essential-data''"

definition TRANSLATIONS :: string where
  "TRANSLATIONS = ''local-guide-translations''"

definition USER_PREFERENCES :: string where
  "USER_PREFERENCES = ''userPreferences''"

definition LAST_SYNC :: string where
  "LAST_SYNC = ''local-guide-last-sync''"

text \<open>\<^verbatim>\<open>Object.entries(CACHE_KEYS)\<close>, in declaration order.\<close>

definition CACHE_KEYS :: "(string \<times> string) list" where
  "CACHE_KEYS =
     [(''RECOMMENDATIONS'', RECOMMENDATIONS),
      (''ESSENTIAL_DATA'', ESSENTIAL_DATA),
      (''TRANSLATIONS'', TRANSLATIONS),
      (''USER_PREFERENCES'', USER_PREFERENCES),
      (''LAST_SYNC'', LAST_SYNC)]"

text \<open>\<^verbatim>\<open>CACHE_EXPIRATION\<close>, in milliseconds.\<close>

definition EXPIRATION_RECOMMENDATIONS :: int where
  "EXPIRATION_RECOMMENDATIONS = 24 * 60 * 60 * 1000"

definition EXPIRATION_ESSENTIAL_DATA :: int where
  "EXPIRATION_ESSENTIAL_DATA = 7 * 24 * 60 * 60 * 1000"

definition EXPIRATION_TRANSLATIONS :: int where
  "EXPIRATION_TRANSLATIONS = 30 * 24 * 60 * 60 * 1000"

definition EXPIRATION_USER_PREFERENCES :: int where
  "EXPIRATION_USER_PREFERENCES = 365 * 24 * 60 * 60 * 1000"

subsection \<open>Reading\<close>

text \<open>
  \<^verbatim>\<open>getCache\<close> returns the value (\<open>None\<close> for \<^verbatim>\<open>null\<close> or \<^verbatim>\<open>undefined\<close>) and the
  storage it leaves behind. The \<^verbatim>\<open>catch\<close> branch, taken when the parse throws, only
  logs and returns \<^verbatim>\<open>null\<close>.
\<close>

definition getCache :: "int \<Rightarrow> 'a localStorage \<Rightarrow> string \<Rightarrow> 'a option \<times> 'a localStorage" where
  "getCache now ls key =
     (case getItem ls key of
        None \<Rightarrow> (None, ls)
      | Some cached \<Rightarrow>
          if \<not> truthy cached then (None, ls)
          else (case JSON_parse cached of
                  None \<Rightarrow> (None, ls)
                | Some cacheItem \<Rightarrow>
                    if now_after now (field_expiration cacheItem)
                    then (None, removeItem ls key)
                    else (field_data cacheItem, ls)))"

text \<open>\<^verbatim>\<open>clearExpiredItems\<close> visits the five keys of \<^verbatim>\<open>CACHE_KEYS\<close>.\<close>

definition clearExpiredItems :: "int \<Rightarrow> 'a localStorage \<Rightarrow> 'a localStorage" where
  "clearExpiredItems now ls =
     fold (\<lambda>key ls'.
        case getItem ls' key of
          None \<Rightarrow> ls'
        | Some cached \<Rightarrow>
            if \<not> truthy cached then ls'
            else (case JSON_parse cached of
                    None \<Rightarrow> removeItem ls' key
                  | Some cacheItem \<Rightarrow>
                      if now_after now (field_expiration cacheItem)
                      then removeItem ls' key else ls'))
       (map snd CACHE_KEYS) ls"

text \<open>\<^verbatim>\<open>JSON.parse(item).timestamp || 0\<close>, with 0 where the parse throws and is caught.\<close>

definition timestamp_of :: "'a stored_text \<Rightarrow> int" where
  "timestamp_of t = (case JSON_parse t of None \<Rightarrow> 0 | Some parsed \<Rightarrow> or_zero (field_timestamp parsed))"

text \<open>
  \<^verbatim>\<open>handleStorageQuotaExceeded\<close>: after \<^verbatim>\<open>clearExpiredItems\<close>, the entries of
  \<^verbatim>\<open>CACHE_KEYS\<close> that are present are sorted by timestamp (the sort is stable), and the
  older half, rounded up, is removed, the user preferences excepted. No unparsable text
  is left under these keys after \<^verbatim>\<open>clearExpiredItems\<close>, so the parse in the sort
  cannot throw.
\<close>

definition handleStorageQuotaExceeded :: "int \<Rightarrow> 'a localStorage \<Rightarrow> 'a localStorage" where
  "handleStorageQuotaExceeded now ls =
     (let ls1 = clearExpiredItems now ls;
          cacheInfo = filter (\<lambda>(name, key, item). case item of None \<Rightarrow> False | Some t \<Rightarrow> truthy t)
                        (map (\<lambda>(name, key). (name, key, getItem ls1 key)) CACHE_KEYS);
          stamped = map (\<lambda>(name, key, item).
                           (key, case item of None \<Rightarrow> 0 | Some t \<Rightarrow> timestamp_of t)) cacheInfo;
          oldest = take ((length cacheInfo + 1) div 2) (sort_key snd stamped)
      in fold (\<lambda>(key, ts) ls'. if key \<noteq> USER_PREFERENCES then removeItem ls' key else ls')
           oldest ls1)"

subsection \<open>Writing\<close>

text \<open>
  What the platform does with a \<^verbatim>\<open>localStorage.setItem\<close>: it stores the text, or throws
  a \<^verbatim>\<open>DOMException\<close> named \<^verbatim>\<open>QuotaExceededError\<close>, or throws something else.
\<close>

datatype setItem_result = Stored | QuotaExceededError | OtherError

text \<open>
  \<^verbatim>\<open>JSON.stringify\<close> of a cache item \<^verbatim>\<open>{"data":d,"timestamp":t,"expiration":e}\<close>. The
  parameter \<open>len\<close> gives the length of the serialised payload.
\<close>

definition stringify :: "('a \<Rightarrow> nat) \<Rightarrow> 'a \<Rightarrow> int \<Rightarrow> int \<Rightarrow> 'a stored_text" where
  "stringify len d t e =
     Text (36 + len d + length (string_of_int t) + length (string_of_int e))
       (Some (JObject (Some d) (Some t) (Some e)))"

text \<open>
  \<^verbatim>\<open>setCache\<close> stamps the item with one reading of the clock (the source reads
  \<^verbatim>\<open>Date.now()\<close> twice in a row) and writes it. A write the platform refuses is caught:
  on \<^verbatim>\<open>QuotaExceededError\<close> the quota handler runs, any other error is only logged; in
  both cases the value is not stored.
\<close>

definition setCache ::
  "setItem_result \<Rightarrow> ('a \<Rightarrow> nat) \<Rightarrow> int \<Rightarrow> 'a localStorage \<Rightarrow> string \<Rightarrow> 'a \<Rightarrow> int \<Rightarrow> 'a localStorage" where
  "setCache res len now ls key d expiration =
     (case res of
        Stored \<Rightarrow> setItem ls key (stringify len d now (now + expiration))
      | QuotaExceededError \<Rightarrow> handleStorageQuotaExceeded now ls
      | OtherError \<Rightarrow> ls)"

subsection \<open>Typed payloads\<close>

record RecommendationItem =
  item_id :: string
  name :: string
  category :: string
  description :: string
  location :: string
  cultural_insight :: string
  image_url :: "string option"
  rating :: "real option"
  tags :: "string list option"
  price_range :: "string option"
  opening_hours :: "string option"
  contact_info :: "string option"

record NotificationPreferences =
  newRecommendations :: bool
  translationUpdates :: bool
  systemUpdates :: bool

record UserPreferences =
  preferredLanguage :: string
  locationSharing :: bool
  cacheTranslations :: bool
  voiceInputEnabled :: bool
  notificationPreferences :: NotificationPreferences
  theme :: "string option"

record SupportedLanguage =
  code :: string
  language_name :: string
  nativeName :: string

record EssentialData =
  popularRecommendations :: "RecommendationItem list"
  categories :: "string list"
  supportedLanguages :: "SupportedLanguage list"

text \<open>
  The values the service stores. \<^verbatim>\<open>getCache<T>\<close> casts what it reads without a check;
  the selectors below are these casts, and say nothing about a payload of another shape.
\<close>

datatype payload =
    RecommendationList (the_recommendations: "RecommendationItem list")
  | EssentialDataValue (the_essential_data: EssentialData)
  | TranslationTable (the_translations: "string \<rightharpoonup> string")
  | PreferencesValue (the_preferences: UserPreferences)

type_synonym storage = "payload localStorage"

definition cacheRecommendations ::
  "setItem_result \<Rightarrow> (payload \<Rightarrow> nat) \<Rightarrow> int \<Rightarrow> storage \<Rightarrow> RecommendationItem list \<Rightarrow> storage" where
  "cacheRecommendations res len now ls rs =
     setCache res len now ls RECOMMENDATIONS (RecommendationList rs) EXPIRATION_RECOMMENDATIONS"

definition getCachedRecommendations ::
  "int \<Rightarrow> storage \<Rightarrow> RecommendationItem list option \<times> storage" where
  "getCachedRecommendations now ls =
     (case getCache now ls RECOMMENDATIONS of (v, ls') \<Rightarrow> (map_option the_recommendations v, ls'))"

definition cacheEssentialData ::
  "setItem_result \<Rightarrow> (payload \<Rightarrow> nat) \<Rightarrow> int \<Rightarrow> storage \<Rightarrow> EssentialData \<Rightarrow> storage" where
  "cacheEssentialData res len now ls d =
     setCache res len now ls ESSENTIAL_DATA (EssentialDataValue d) EXPIRATION_ESSENTIAL_DATA"

definition getCachedEssentialData :: "int \<Rightarrow> storage \<Rightarrow> EssentialData option \<times> storage" where
  "getCachedEssentialData now ls =
     (case getCache now ls ESSENTIAL_DATA of (v, ls') \<Rightarrow> (map_option the_essential_data v, ls'))"

definition getCachedTranslations ::
  "int \<Rightarrow> storage \<Rightarrow> (string \<rightharpoonup> string) option \<times> storage" where
  "getCachedTranslations now ls =
     (case getCache now ls TRANSLATIONS of (v, ls') \<Rightarrow> (map_option the_translations v, ls'))"

text \<open>
  \<^verbatim>\<open>cacheTranslation\<close> reads the whole table (or starts from \<^verbatim>\<open>{}\<close>), sets one key and
  writes the table back under the translations TTL.
\<close>

definition cacheTranslation ::
  "setItem_result \<Rightarrow> (payload \<Rightarrow> nat) \<Rightarrow> int \<Rightarrow> storage \<Rightarrow> string \<Rightarrow> string \<Rightarrow> storage" where
  "cacheTranslation res len now ls key translation =
     (case getCachedTranslations now ls of
        (cached, ls') \<Rightarrow>
          (let translations = (case cached of None \<Rightarrow> Map.empty | Some m \<Rightarrow> m)
           in setCache res len now ls' TRANSLATIONS
                (TranslationTable (translations(key \<mapsto> translation))) EXPIRATION_TRANSLATIONS))"

text \<open>\<^verbatim>\<open>translations?.[key] || null\<close>: the empty string is falsy.\<close>

definition getCachedTranslation :: "int \<Rightarrow> storage \<Rightarrow> string \<Rightarrow> string option \<times> storage" where
  "getCachedTranslation now ls key =
     (case getCachedTranslations now ls of
        (cached, ls') \<Rightarrow>
          ((case cached of
              None \<Rightarrow> None
            | Some translations \<Rightarrow>
                (case translations key of
                   None \<Rightarrow> None
                 | Some s \<Rightarrow> if s = [] then None else Some s)), ls'))"

definition cacheUserPreferences ::
  "setItem_result \<Rightarrow> (payload \<Rightarrow> nat) \<Rightarrow> int \<Rightarrow> storage \<Rightarrow> UserPreferences \<Rightarrow> storage" where
  "cacheUserPreferences res len now ls prefs =
     setCache res len now ls USER_PREFERENCES (PreferencesValue prefs) EXPIRATION_USER_PREFERENCES"

definition getCachedUserPreferences :: "int \<Rightarrow> storage \<Rightarrow> UserPreferences option \<times> storage" where
  "getCachedUserPreferences now ls =
     (case getCache now ls USER_PREFERENCES of (v, ls') \<Rightarrow> (map_option the_preferences v, ls'))"

subsection \<open>The last-sync marker\<close>

text \<open>
  \<^verbatim>\<open>updateLastSync\<close> writes \<^verbatim>\<open>Date.now().toString()\<close> with no \<^verbatim>\<open>try\<close> around the write:
  when the platform refuses the write, the exception leaves the function.
\<close>

datatype js_error = DOMException string | Error string

definition updateLastSync :: "setItem_result \<Rightarrow> int \<Rightarrow> 'a localStorage \<Rightarrow> js_error + 'a localStorage" where
  "updateLastSync res now ls =
     (case res of
        Stored \<Rightarrow> Inr (setItem ls LAST_SYNC (Text (length (string_of_int now)) (Some (JNumber now))))
      | QuotaExceededError \<Rightarrow> Inl (DOMException ''QuotaExceededError'')
      | OtherError \<Rightarrow> Inl (Error ''setItem''))"

text \<open>
  \<^verbatim>\<open>parseInt(text, 10)\<close> on the texts of the model: the number for a numeral, \<^verbatim>\<open>NaN\<close>
  for an object or an unparsable text.
\<close>

datatype js_number = NaN | Num int

definition parseInt :: "'a stored_text \<Rightarrow> js_number" where
  "parseInt t = (case JSON_parse t of Some (JNumber n) \<Rightarrow> Num n | _ \<Rightarrow> NaN)"

definition getLastSync :: "'a localStorage \<Rightarrow> js_number option" where
  "getLastSync ls =
     (case getItem ls LAST_SYNC of
        None \<Rightarrow> None
      | Some lastSync \<Rightarrow> if truthy lastSync then Some (parseInt lastSync) else None)"

text \<open>\<^verbatim>\<open>if (!lastSync) return true\<close>: \<^verbatim>\<open>null\<close>, \<^verbatim>\<open>NaN\<close> and 0 are falsy.\<close>

definition needsRefresh :: "int \<Rightarrow> 'a localStorage \<Rightarrow> int \<Rightarrow> bool" where
  "needsRefresh now ls maxAge =
     (case getLastSync ls of
        None \<Rightarrow> True
      | Some NaN \<Rightarrow> True
      | Some (Num lastSync) \<Rightarrow> if lastSync = 0 then True else now - lastSync > maxAge)"

definition clearCache :: "'a localStorage \<Rightarrow> string \<Rightarrow> 'a localStorage" where
  "clearCache ls key = removeItem ls key"

definition clearAllCaches :: "'a localStorage \<Rightarrow> 'a localStorage" where
  "clearAllCaches ls = fold (\<lambda>key ls'. removeItem ls' key) (map snd CACHE_KEYS) ls"

subsection \<open>Quota snapshot\<close>

text \<open>
  What \<^verbatim>\<open>navigator.storage.estimate()\<close> gives: the primitive is missing, or the query
  rejects, or it yields an estimate whose \<^verbatim>\<open>usage\<close> and \<^verbatim>\<open>quota\<close> may be undefined.
  Byte counts are natural numbers; the quotient is taken in the reals.
\<close>

datatype storage_estimate =
    Unsupported
  | EstimateFailed
  | Estimate (estimate_usage: "nat option") (estimate_quota: "nat option")

record CacheInfo =
  used :: nat
  quota :: nat
  percentage :: real
  nearLimit :: bool

definition storageQuotaWarningThreshold :: real where
  "storageQuotaWarningThreshold = 0.8"

definition getCacheInfo :: "storage_estimate \<Rightarrow> CacheInfo" where
  "getCacheInfo est =
     (case est of
        Estimate usage q \<Rightarrow>
          (let u = (case usage of None \<Rightarrow> 0 | Some n \<Rightarrow> n);
               q' = (case q of None \<Rightarrow> 0 | Some n \<Rightarrow> n);
               p = (if q' > 0 then real u / real q' else 0)
           in \<lparr>used = u, quota = q', percentage = p,
               nearLimit = (p > storageQuotaWarningThreshold)\<rparr>)
      | _ \<Rightarrow> \<lparr>used = 0, quota = 0, percentage = 0, nearLimit = False\<rparr>)"

section \<open>OfflineFallbackService\<close>

text \<open>
  \<^verbatim>\<open>String.prototype.toLowerCase\<close>, on the ASCII letters (the characters of the model
  are bytes).
\<close>

definition toLowerCase_char :: "char \<Rightarrow> char" where
  "toLowerCase_char c =
     (let n = (of_char c :: nat) in if 65 \<le> n \<and> n \<le> 90 then char_of (n + 32) else c)"

definition toLowerCase :: "string \<Rightarrow> string" where
  "toLowerCase s = map toLowerCase_char s"




section \<open>CacheManager\<close>

definition cache_prefix :: string where
  "cache_prefix = ''local-guide-''"

definition isEssentialKey :: "string \<Rightarrow> bool" where
  "isEssentialKey key =
     list_ex (\<lambda>essentialKey. includesStr key essentialKey)
       [''userPreferences'', ''local-guide-essential-data'', ''local-guide-last-sync'']"

text \<open>
  \<^verbatim>\<open>cleanExpiredItems\<close> walks over a snapshot of the keys; \<open>expiredItemStep\<close> is the
  body of its loop. A key without the prefix is skipped; an essential key is skipped
  before its text is read when \<open>preserveEssential\<close> is set; an unparsable text is
  removed in the \<^verbatim>\<open>catch\<close> branch.
\<close>

definition expiredItemStep :: "int \<Rightarrow> bool \<Rightarrow> string \<Rightarrow> 'a localStorage \<Rightarrow> 'a localStorage" where
  "expiredItemStep now preserveEssential key ls =
     (if \<not> startsWith key cache_prefix then ls
      else if preserveEssential \<and> isEssentialKey key then ls
      else (case getItem ls key of
              None \<Rightarrow> ls
            | Some item \<Rightarrow>
                if \<not> truthy item then ls
                else (case JSON_parse item of
                        None \<Rightarrow> removeItem ls key
                      | Some parsed \<Rightarrow>
                          if set_and_passed now (field_expiration parsed)
                          then removeItem ls key else ls)))"

definition cleanExpiredItems :: "int \<Rightarrow> bool \<Rightarrow> 'a localStorage \<Rightarrow> 'a localStorage" where
  "cleanExpiredItems now preserveEssential ls =
     fold (expiredItemStep now preserveEssential) (Object_keys ls) ls"

text \<open>
  The keys a cleanup by age or by size may touch: those with the prefix, without the
  essential ones when \<open>preserveEssential\<close> is set.
\<close>

definition eligibleKeys :: "bool \<Rightarrow> 'a localStorage \<Rightarrow> string list" where
  "eligibleKeys preserveEssential ls =
     filter (\<lambda>key. \<not> preserveEssential \<or> \<not> isEssentialKey key)
       (filter (\<lambda>key. startsWith key cache_prefix) (Object_keys ls))"

text \<open>
  \<^verbatim>\<open>cleanByAge\<close>: each eligible key with a non-empty text gives a triple of key,
  timestamp and size (timestamp 0 and size 0 when the parse throws); the triples are
  sorted by timestamp, oldest first, and those older than the cutoff are removed.
\<close>

definition cleanByAge :: "int \<Rightarrow> int \<Rightarrow> bool \<Rightarrow> 'a localStorage \<Rightarrow> 'a localStorage" where
  "cleanByAge now maxAge preserveEssential ls =
     (let cutoffTime = now - maxAge;
          itemsWithAge =
            sort_key (\<lambda>(key, timestamp, sz). timestamp)
              (List.map_filter (\<lambda>key.
                  case getItem ls key of
                    None \<Rightarrow> None
                  | Some item \<Rightarrow>
                      if truthy item
                      then Some (case JSON_parse item of
                                   None \<Rightarrow> (key, 0, 0)
                                 | Some parsed \<Rightarrow>
                                     (key, or_zero (field_timestamp parsed), text_length item))
                      else None)
                (eligibleKeys preserveEssential ls))
      in fold (\<lambda>(key, timestamp, sz) ls'.
                 if timestamp < cutoffTime then removeItem ls' key else ls')
           itemsWithAge ls)"

text \<open>
  \<^verbatim>\<open>cleanBySize\<close>: the sizes of the eligible non-empty texts are summed; the items are
  sorted by timestamp, oldest first, and removed one by one until the sum is at most
  \<open>maxSize\<close>.
\<close>

fun removeUntilUnder :: "int \<Rightarrow> int \<Rightarrow> (string \<times> int \<times> nat) list \<Rightarrow> 'a localStorage \<Rightarrow> 'a localStorage" where
  "removeUntilUnder maxSize currentSize [] ls = ls"
| "removeUntilUnder maxSize currentSize ((key, timestamp, sz) # items) ls =
     (if currentSize \<le> maxSize then ls
      else removeUntilUnder maxSize (currentSize - int sz) items (removeItem ls key))"

definition cleanBySize :: "int \<Rightarrow> bool \<Rightarrow> 'a localStorage \<Rightarrow> 'a localStorage" where
  "cleanBySize maxSize preserveEssential ls =
     (let present =
            List.map_filter (\<lambda>key.
                case getItem ls key of
                  None \<Rightarrow> None
                | Some item \<Rightarrow>
                    if truthy item then Some (key, timestamp_of item, text_length item) else None)
              (eligibleKeys preserveEssential ls);
          currentSize = sum_list (map (\<lambda>(key, timestamp, sz). int sz) present);
          itemsWithMetadata = sort_key (\<lambda>(key, timestamp, sz). timestamp) present
      in removeUntilUnder maxSize currentSize itemsWithMetadata ls)"

text \<open>\<^verbatim>\<open>performEmergencyCleanup\<close> removes every prefixed key that is not essential.\<close>

definition performEmergencyCleanup :: "'a localStorage \<Rightarrow> 'a localStorage" where
  "performEmergencyCleanup ls =
     fold (\<lambda>key ls'.
             if startsWith key cache_prefix \<and> \<not> isEssentialKey key then removeItem ls' key else ls')
       (Object_keys ls) ls"

record CacheCleanupOptions =
  maxAge :: "int option"
  maxSize :: "int option"
  preserveEssential :: "bool option"

definition MAX_STORAGE_PERCENTAGE :: real where
  "MAX_STORAGE_PERCENTAGE = 0.85"

definition overLimit :: "CacheInfo \<Rightarrow> int \<Rightarrow> bool" where
  "overLimit info size_limit =
     (real (used info) > real_of_int size_limit \<or> percentage info > MAX_STORAGE_PERCENTAGE)"

text \<open>
  \<^verbatim>\<open>performCleanup\<close> asks the platform for its estimate twice; \<open>est1\<close> and \<open>est2\<close> are
  the two answers. Nothing inside its \<^verbatim>\<open>try\<close> block throws.
\<close>

definition performCleanup ::
  "storage_estimate \<Rightarrow> storage_estimate \<Rightarrow> int \<Rightarrow> CacheCleanupOptions \<Rightarrow> 'a localStorage
     \<Rightarrow> 'a localStorage" where
  "performCleanup est1 est2 now options ls =
     (let age = (case maxAge options of None \<Rightarrow> 24 * 60 * 60 * 1000 | Some a \<Rightarrow> a);
          size_limit = (case maxSize options of None \<Rightarrow> 50 * 1024 * 1024 | Some m \<Rightarrow> m);
          preserve = (case preserveEssential options of None \<Rightarrow> True | Some b \<Rightarrow> b);
          storageInfo = getCacheInfo est1;
          ls1 = cleanExpiredItems now preserve ls;
          ls2 = (if overLimit storageInfo size_limit then cleanByAge now age preserve ls1 else ls1);
          updatedStorageInfo = getCacheInfo est2
      in if overLimit updatedStorageInfo size_limit then cleanBySize size_limit preserve ls2 else ls2)"

record CacheStats =
  totalItems :: nat
  totalSize :: nat
  oldestItem :: "int option"
  newestItem :: "int option"
  expiredItems :: nat

text \<open>
  One round of the loop of \<^verbatim>\<open>getCacheStats\<close>. When the parse throws, only the size and
  the count of expired items have been updated.
\<close>

definition statsStep :: "int \<Rightarrow> 'a localStorage \<Rightarrow> string \<Rightarrow> CacheStats \<Rightarrow> CacheStats" where
  "statsStep now ls key st =
     (case getItem ls key of
        None \<Rightarrow> st
      | Some item \<Rightarrow>
          if \<not> truthy item then st
          else (case JSON_parse item of
                  None \<Rightarrow> st\<lparr>totalSize := totalSize st + text_length item,
                             expiredItems := expiredItems st + 1\<rparr>
                | Some parsed \<Rightarrow>
                    (let timestamp = or_zero (field_timestamp parsed)
                     in st\<lparr>totalSize := totalSize st + text_length item,
                           oldestItem := (case oldestItem st of
                                            None \<Rightarrow> Some timestamp
                                          | Some t \<Rightarrow> if timestamp < t then Some timestamp else Some t),
                           newestItem := (case newestItem st of
                                            None \<Rightarrow> Some timestamp
                                          | Some t \<Rightarrow> if timestamp > t then Some timestamp else Some t),
                           expiredItems := (if set_and_passed now (field_expiration parsed)
                                            then expiredItems st + 1 else expiredItems st)\<rparr>)))"

definition getCacheStats :: "int \<Rightarrow> 'a localStorage \<Rightarrow> CacheStats" where
  "getCacheStats now ls =
     (let cacheKeys = filter (\<lambda>key. startsWith key cache_prefix) (Object_keys ls)
      in fold (statsStep now ls) cacheKeys
           \<lparr>totalItems = length cacheKeys, totalSize = 0, oldestItem = None,
            newestItem = None, expiredItems = 0\<rparr>)"

record CacheHealthReport =
  healthy :: bool
  warnings :: "string list"
  recommendations :: "string list"

definition SEVEN_DAYS :: int where
  "SEVEN_DAYS = 7 * 24 * 60 * 60 * 1000"

text \<open>
  \<^verbatim>\<open>checkStorageHealth\<close>. The guard \<^verbatim>\<open>cacheStats.oldestItem && ...\<close> of the age check is
  false for \<^verbatim>\<open>null\<close> and for the number 0.
\<close>

definition checkStorageHealth :: "storage_estimate \<Rightarrow> int \<Rightarrow> 'a localStorage \<Rightarrow> CacheHealthReport" where
  "checkStorageHealth est now ls =
     (let storageInfo = getCacheInfo est;
          cacheStats = getCacheStats now ls;
          r0 = \<lparr>healthy = True, warnings = [], recommendations = []\<rparr>;
          r1 = (if percentage storageInfo > 0.9
                then \<lparr>healthy = False,
                      warnings = warnings r0 @ [''Storage is nearly full (>90%)''],
                      recommendations = recommendations r0 @ [''Clear old cache data or reduce cache size'']\<rparr>
                else if percentage storageInfo > 0.8
                then r0\<lparr>warnings := warnings r0 @ [''Storage usage is high (>80%)''],
                        recommendations := recommendations r0 @ [''Consider clearing old cache data'']\<rparr>
                else r0);
          r2 = (if expiredItems cacheStats > 10
                then r1\<lparr>warnings := warnings r1 @
                          [string_of_nat (expiredItems cacheStats) @ '' expired cache items found''],
                        recommendations := recommendations r1 @
                          [''Run cache cleanup to remove expired items'']\<rparr>
                else r1)
      in if (case oldestItem cacheStats of
               None \<Rightarrow> False
             | Some t \<Rightarrow> t \<noteq> 0 \<and> now - t > SEVEN_DAYS)
         then r2\<lparr>warnings := warnings r2 @ [''Some cache items are very old (>7 days)''],
                 recommendations := recommendations r2 @ [''Consider refreshing old cache data'']\<rparr>
         else r2)"

section \<open>DataPreloader\<close>

text \<open>
  The preloader talks to the network through the query client. For each
  \<^verbatim>\<open>prefetchQuery\<close> the platform decides the outcome: the query function ran and
  returned a value, or the call rejects with an error (given by its text), which is how
  the \<^verbatim>\<open>catch\<close> blocks of the source take a failed fetch. Each write to the storage
  has an outcome of its own. The query cache of the client is outside the model, so the
  calls of \<^verbatim>\<open>setQueryData\<close> leave no trace here.
\<close>

datatype 'v fetch = Fetched 'v | FetchFailed string

record platform =
  onLine :: bool
  payloadLength :: "payload \<Rightarrow> nat"
  preferencesResponse :: "UserPreferences fetch"
  popularResponse :: "RecommendationItem list fetch"
  categoryResponse :: "string \<Rightarrow> RecommendationItem list fetch"
  preferencesWrite :: setItem_result
  recommendationsWrite :: setItem_result
  essentialDataWrite :: setItem_result
  essentialSyncWrite :: setItem_result
  lastSyncWrite :: setItem_result

text \<open>An entry of the array \<^verbatim>\<open>Promise.allSettled\<close> resolves to.\<close>

datatype settled = Fulfilled | Rejected string

record PreloadResult =
  success :: bool
  errors :: "string list"
  preloadedItems :: "string list"

text \<open>
  \<^verbatim>\<open>CacheService.preloadEssentialData\<close> writes default essential data unless fresh data
  is cached. A failing \<^verbatim>\<open>updateLastSync\<close> is caught here and logged.
\<close>

definition defaultEssentialData :: EssentialData where
  "defaultEssentialData =
     \<lparr>popularRecommendations = [],
      categories = [''street_food'', ''shops'', ''markets'', ''souvenirs'', ''clothing'', ''crafts''],
      supportedLanguages =
        [\<lparr>code = ''en'', language_name = ''English'', nativeName = ''English''\<rparr>,
         \<lparr>code = ''hi'', language_name = ''Hindi'',
          nativeName = [CHR 0xE0, CHR 0xA4, CHR 0xB9, CHR 0xE0, CHR 0xA4, CHR 0xBF, CHR 0xE0, CHR 0xA4, CHR 0xA8, CHR 0xE0, CHR 0xA5, CHR 0x8D, CHR 0xE0, CHR 0xA4, CHR 0xA6, CHR 0xE0, CHR 0xA5, CHR 0x80]\<rparr>,
         \<lparr>code = ''te'', language_name = ''Telugu'',
          nativeName = [CHR 0xE0, CHR 0xB0, CHR 0xA4, CHR 0xE0, CHR 0xB1, CHR 0x86, CHR 0xE0, CHR 0xB0, CHR 0xB2, CHR 0xE0, CHR 0xB1, CHR 0x81, CHR 0xE0, CHR 0xB0, CHR 0x97, CHR 0xE0, CHR 0xB1, CHR 0x81]\<rparr>]\<rparr>"

definition CacheService_preloadEssentialData :: "platform \<Rightarrow> int \<Rightarrow> storage \<Rightarrow> storage" where
  "CacheService_preloadEssentialData pf now ls =
     (case getCachedEssentialData now ls of
        (cachedData, ls1) \<Rightarrow>
          if cachedData \<noteq> None \<and> \<not> needsRefresh now ls1 EXPIRATION_ESSENTIAL_DATA then ls1
          else (let ls2 = cacheEssentialData (essentialDataWrite pf) (payloadLength pf) now ls1
                            defaultEssentialData
                in case updateLastSync (essentialSyncWrite pf) now ls2 of
                     Inr ls3 \<Rightarrow> ls3
                   | Inl error \<Rightarrow> ls2))"

text \<open>
  The four tasks. Each returns how its promise settles and the storage it leaves.
  The first two accept cached data that is fresh, otherwise fetch, and on a failed fetch
  fall back to whatever is cached; only with nothing cached do they rethrow.
\<close>

definition preloadUserPreferences :: "platform \<Rightarrow> int \<Rightarrow> storage \<Rightarrow> settled \<times> storage" where
  "preloadUserPreferences pf now ls =
     (case getCachedUserPreferences now ls of
        (cachedPrefs, ls1) \<Rightarrow>
          if cachedPrefs \<noteq> None \<and> \<not> needsRefresh now ls1 (10 * 60 * 1000) then (Fulfilled, ls1)
          else (case preferencesResponse pf of
                  Fetched preferences \<Rightarrow>
                    (Fulfilled,
                     cacheUserPreferences (preferencesWrite pf) (payloadLength pf) now ls1 preferences)
                | FetchFailed error \<Rightarrow>
                    (case getCachedUserPreferences now ls1 of
                       (cachedAgain, ls2) \<Rightarrow>
                         if cachedAgain \<noteq> None then (Fulfilled, ls2) else (Rejected error, ls2))))"

definition preloadPopularRecommendations :: "platform \<Rightarrow> int \<Rightarrow> storage \<Rightarrow> settled \<times> storage" where
  "preloadPopularRecommendations pf now ls =
     (case getCachedRecommendations now ls of
        (cachedRecs, ls1) \<Rightarrow>
          if (case cachedRecs of None \<Rightarrow> False | Some rs \<Rightarrow> length rs > 0)
             \<and> \<not> needsRefresh now ls1 (30 * 60 * 1000)
          then (Fulfilled, ls1)
          else (case popularResponse pf of
                  Fetched rs \<Rightarrow>
                    (Fulfilled,
                     cacheRecommendations (recommendationsWrite pf) (payloadLength pf) now ls1 rs)
                | FetchFailed error \<Rightarrow>
                    (case getCachedRecommendations now ls1 of
                       (cachedAgain, ls2) \<Rightarrow>
                         if (case cachedAgain of None \<Rightarrow> False | Some rs \<Rightarrow> length rs > 0)
                         then (Fulfilled, ls2) else (Rejected error, ls2))))"

text \<open>
  One category of \<^verbatim>\<open>preloadRecommendationCategories\<close>: the \<^verbatim>\<open>catch\<close> around the
  prefetch logs a warning and does not rethrow, so the promise of the category is
  fulfilled either way.
\<close>

definition preloadCategory :: "RecommendationItem list fetch \<Rightarrow> settled" where
  "preloadCategory response =
     (case response of Fetched rs \<Rightarrow> Fulfilled | FetchFailed error \<Rightarrow> Fulfilled)"

text \<open>\<^verbatim>\<open>await Promise.allSettled(tasks)\<close> never throws, whatever the tasks did.\<close>

definition awaitAllSettled :: "settled list \<Rightarrow> settled" where
  "awaitAllSettled tasks = Fulfilled"

definition preloadRecommendationCategories :: "platform \<Rightarrow> settled" where
  "preloadRecommendationCategories pf =
     awaitAllSettled
       (map (\<lambda>category. preloadCategory (categoryResponse pf category))
          [''street_food'', ''shops'', ''markets'', ''souvenirs''])"

definition preloadEssentialCacheData :: "platform \<Rightarrow> int \<Rightarrow> storage \<Rightarrow> settled \<times> storage" where
  "preloadEssentialCacheData pf now ls = (Fulfilled, CacheService_preloadEssentialData pf now ls)"

text \<open>
  The tasks run concurrently in the source. Here they run one after the other, in the
  order they are started, at one reading of the clock.
\<close>

definition runPreloadTasks :: "platform \<Rightarrow> int \<Rightarrow> storage \<Rightarrow> settled list \<times> storage" where
  "runPreloadTasks pf now ls =
     (case preloadUserPreferences pf now ls of
        (r1, ls1) \<Rightarrow>
          (case preloadPopularRecommendations pf now ls1 of
             (r2, ls2) \<Rightarrow>
               (case preloadEssentialCacheData pf now ls2 of
                  (r4, ls4) \<Rightarrow> ([r1, r2, preloadRecommendationCategories pf, r4], ls4))))"

definition taskNames :: "string list" where
  "taskNames =
     [''User Preferences'', ''Popular Recommendations'', ''Recommendation Categories'',
      ''Essential Cache Data'']"

text \<open>\<^verbatim>\<open>taskNames[index]\<close> in a template string: out of range it prints as \<^verbatim>\<open>undefined\<close>.\<close>

definition taskName :: "nat \<Rightarrow> string" where
  "taskName index = (if index < length taskNames then taskNames ! index else ''undefined'')"

definition processResult :: "settled \<times> nat \<Rightarrow> PreloadResult \<Rightarrow> PreloadResult" where
  "processResult tr result =
     (case tr of
        (Fulfilled, index) \<Rightarrow> result\<lparr>preloadedItems := preloadedItems result @ [taskName index]\<rparr>
      | (Rejected reason, index) \<Rightarrow>
          result\<lparr>errors := errors result @ [''Failed to preload '' @ taskName index @ '': '' @ reason]\<rparr>)"

definition error_text :: "js_error \<Rightarrow> string" where
  "error_text e = (case e of DOMException n \<Rightarrow> n | Error m \<Rightarrow> ''Error: '' @ m)"

text \<open>
  What \<^verbatim>\<open>preloadEssentialData\<close> does once the tasks have settled: it collects the
  results, updates the last-sync marker and sets \<open>success\<close>. When the update of the
  marker throws, the outer \<^verbatim>\<open>catch\<close> sets \<open>success\<close> to false and adds an error.
\<close>

definition finishPreload ::
  "setItem_result \<Rightarrow> int \<Rightarrow> settled list \<Rightarrow> 'a localStorage \<Rightarrow> PreloadResult \<times> 'a localStorage" where
  "finishPreload w now results ls =
     (let result = fold processResult (zip results [0..<length results])
                     \<lparr>success = True, errors = [], preloadedItems = []\<rparr>
      in case updateLastSync w now ls of
           Inr ls' \<Rightarrow>
             (result\<lparr>success := (real (length (errors result)) \<le> real (length results) / 2)\<rparr>, ls')
         | Inl error \<Rightarrow>
             (result\<lparr>success := False,
                     errors := errors result @ [''Preload failed: '' @ error_text error]\<rparr>, ls))"

definition preloadEssentialData :: "platform \<Rightarrow> bool \<Rightarrow> int \<Rightarrow> storage \<Rightarrow> PreloadResult \<times> storage" where
  "preloadEssentialData pf forceRefresh now ls =
     (let refresh = (forceRefresh \<or> needsRefresh now ls (60 * 60 * 1000))
      in if \<not> refresh \<and> \<not> onLine pf
         then (\<lparr>success = True, errors = [], preloadedItems = []\<rparr>, ls)
         else (case runPreloadTasks pf now ls of
                 (results, ls') \<Rightarrow> finishPreload (lastSyncWrite pf) now results ls'))"

text \<open>The number of rejected entries among settled results.\<close>

fun is_rejected :: "settled \<Rightarrow> bool" where
  "is_rejected Fulfilled = False"
| "is_rejected (Rejected reason) = True"

definition failedCount :: "settled list \<Rightarrow> nat" where
  "failedCount results = length (filter is_rejected results)"

section \<open>Auxiliary notions\<close>

text \<open>
  The texts the sweep of expired items removes: non-empty, and unparsable or past an
  expiration that is set. \<open>sweptFrom now ls s\<close> says that the storage \<open>s\<close> arises from
  \<open>ls\<close> by removing such entries only.
\<close>

definition sweepable :: "int \<Rightarrow> 'a stored_text \<Rightarrow> bool" where
  "sweepable now item =
     (truthy item \<and>
      (case JSON_parse item of
         None \<Rightarrow> True
       | Some parsed \<Rightarrow> set_and_passed now (field_expiration parsed)))"

definition sweptFrom :: "int \<Rightarrow> 'a localStorage \<Rightarrow> 'a localStorage \<Rightarrow> bool" where
  "sweptFrom now ls s =
     (\<forall>k. getItem s k = getItem ls k \<or>
          (getItem s k = None \<and> (\<exists>item. getItem ls k = Some item \<and> sweepable now item)))"


section \<open>Example storages\<close>

text \<open>
  Small storages, estimates and platforms on which the theorems below are tried. The
  first is a translation table written at time 0 and expiring at time 100.
\<close>

definition hello_table :: storage where
  "hello_table =
     [(TRANSLATIONS, Text 40 (Some (JObject
         (Some (TranslationTable [''auto-hi-hello'' \<mapsto> ''namaste''])) (Some 0) (Some 100))))]"

text \<open>
  A platform that is online, stores every write, answers the preferences and the
  popular-recommendations fetch, and fails every per-category fetch; and the same
  platform with a storage that has no room left, so that every write is refused.
\<close>

definition sample_preferences :: UserPreferences where
  "sample_preferences =
     \<lparr>preferredLanguage = ''en'', locationSharing = False, cacheTranslations = True,
      voiceInputEnabled = True,
      notificationPreferences =
        \<lparr>newRecommendations = True, translationUpdates = False, systemUpdates = True\<rparr>,
      theme = Some ''light''\<rparr>"

definition sample_platform :: platform where
  "sample_platform =
     \<lparr>onLine = True, payloadLength = (\<lambda>p. 1),
      preferencesResponse = Fetched sample_preferences,
      popularResponse = Fetched [],
      categoryResponse = (\<lambda>c. FetchFailed ''Error: Failed to fetch recommendations''),
      preferencesWrite = Stored, recommendationsWrite = Stored, essentialDataWrite = Stored,
      essentialSyncWrite = Stored, lastSyncWrite = Stored\<rparr>"

definition full_platform :: platform where
  "full_platform =
     sample_platform
       \<lparr>preferencesWrite := QuotaExceededError, recommendationsWrite := QuotaExceededError,
        essentialDataWrite := QuotaExceededError, essentialSyncWrite := QuotaExceededError,
        lastSyncWrite := QuotaExceededError\<rparr>"

text \<open>
  Two entries whose texts fail to parse, one under an essential key; an estimate of
  95 percent usage; cleanup options that ask for preservation.
\<close>

definition corrupted_pair :: "nat localStorage" where
  "corrupted_pair = [(ESSENTIAL_DATA, Text 5 None), (RECOMMENDATIONS, Text 5 None)]"

definition over_limit :: storage_estimate where
  "over_limit = Estimate (Some 95) (Some 100)"

definition preserving :: CacheCleanupOptions where
  "preserving = \<lparr>maxAge = None, maxSize = None, preserveEssential = Some True\<rparr>"

text \<open>An envelope that expired at time 100, under the preferences key and under the
  recommendations key.\<close>

definition stale_envelope :: "nat stored_text" where
  "stale_envelope = Text 60 (Some (JObject (Some 0) (Some 10) (Some 100)))"

definition preferences_only :: "nat localStorage" where
  "preferences_only = [(USER_PREFERENCES, stale_envelope)]"

definition recommendations_only :: "nat localStorage" where
  "recommendations_only = [(RECOMMENDATIONS, stale_envelope)]"

text \<open>
  A translations envelope written ten days before the time 1730000000000 and live for
  another twenty, with and without the last-sync marker beside it.
\<close>

definition old_translations :: "nat stored_text" where
  "old_translations = Text 80 (Some (JObject (Some 0) (Some 1729136000000) (Some 1731728000000)))"

definition synced_storage :: "nat localStorage" where
  "synced_storage =
     [(LAST_SYNC, Text 13 (Some (JNumber 1729999000000))), (TRANSLATIONS, old_translations)]"

definition unsynced_storage :: "nat localStorage" where
  "unsynced_storage = [(TRANSLATIONS, old_translations)]"

section \<open>The claim's reading of the offline filter\<close>




section \<open>Example recommendations\<close>




section \<open>Storage lemmas\<close>

lemmas key_defs =
  RECOMMENDATIONS_def ESSENTIAL_DATA_def TRANSLATIONS_def USER_PREFERENCES_def LAST_SYNC_def

lemma getItem_setItem: "getItem (setItem ls k t) k' = (if k' = k then Some t else getItem ls k')"
  by (simp add: getItem_def setItem_def update_conv')

lemma getItem_removeItem: "getItem (removeItem ls k) k' = (if k' = k then None else getItem ls k')"
  by (simp add: getItem_def removeItem_def delete_conv')

lemma truthy_stringify: "truthy (stringify len d t e)"
  by (simp add: truthy_def stringify_def)

lemma JSON_parse_stringify:
  "JSON_parse (stringify len d t e) = Some (JObject (Some d) (Some t) (Some e))"
  by (simp add: stringify_def)

lemma fold_frame:
  assumes "\<And>x s. x \<in> set xs \<Longrightarrow> getItem (f x s) k = getItem s k"
  shows "getItem (fold f xs ls) k = getItem ls k"
  using assms by (induction xs arbitrary: ls) simp_all

lemma fold_invariant:
  assumes "I s" and "\<And>x s. I s \<Longrightarrow> I (f x s)"
  shows "I (fold f xs s)"
  using assms by (induction xs arbitrary: s) simp_all

lemma fold_post:
  assumes frame: "\<And>x y s. y \<noteq> x \<Longrightarrow> getItem (f x s) y = getItem s y"
    and post: "\<And>x s. P (getItem (f x s) x)"
    and "distinct xs" and "k \<in> set xs"
  shows "P (getItem (fold f xs ls) k)"
  using assms(3,4)
proof (induction xs arbitrary: ls)
  case Nil
  then show ?case by simp
next
  case (Cons a xs)
  show ?case
  proof (cases "k = a")
    case True
    with Cons.prems have "k \<notin> set xs" by simp
    then have "getItem (fold f xs (f a ls)) k = getItem (f a ls) k"
      by (intro fold_frame frame) auto
    with True post [of a ls] show ?thesis by simp
  next
    case False
    with Cons show ?thesis by simp
  qed
qed

section \<open>The quota handler\<close>

text \<open>
  After \<^verbatim>\<open>clearExpiredItems\<close> no key of \<^verbatim>\<open>CACHE_KEYS\<close> holds a non-empty text that
  fails to parse, so the parse in the sort of \<^verbatim>\<open>handleStorageQuotaExceeded\<close> does not
  throw.
\<close>

lemma distinct_CACHE_KEYS: "distinct (map snd CACHE_KEYS)"
  by (simp add: CACHE_KEYS_def key_defs)

lemma clearExpiredItems_parsable:
  assumes "key \<in> set (map snd CACHE_KEYS)"
    and "getItem (clearExpiredItems now ls) key = Some t" and "truthy t"
  shows "JSON_parse t \<noteq> None"
proof -
  let ?P = "\<lambda>entry. case entry of None \<Rightarrow> True | Some t \<Rightarrow> truthy t \<longrightarrow> JSON_parse t \<noteq> None"
  have "?P (getItem (clearExpiredItems now ls) key)"
    unfolding clearExpiredItems_def
    by (rule fold_post [OF _ _ distinct_CACHE_KEYS assms(1)])
      (auto simp add: getItem_removeItem split: option.splits)
  with assms(2,3) show ?thesis by simp
qed

section \<open>Lazy expiry on read\<close>

lemma getCache_envelope:
  assumes "getItem ls key = Some (Text n (Some (JObject (Some d) ts (Some e))))" and "0 < n"
  shows "getCache now ls key = (if now > e then (None, removeItem ls key) else (Some d, ls))"
  using assms by (simp add: getCache_def truthy_def)

lemma getCache_unparsable:
  assumes "getItem ls key = Some (Text n None)"
  shows "getCache now ls key = (None, ls)"
  using assms by (simp add: getCache_def)

text \<open>A sweep of expired items only removes entries that a read reports absent anyway.\<close>

lemma expiredItemStep_cases:
  "expiredItemStep now pe x s = s \<or>
   (\<exists>item. getItem s x = Some item \<and> sweepable now item \<and>
      expiredItemStep now pe x s = removeItem s x)"
  unfolding expiredItemStep_def sweepable_def
  by (cases "getItem s x") (auto split: option.splits)

lemma sweptFrom_step:
  assumes "sweptFrom now ls s"
  shows "sweptFrom now ls (expiredItemStep now pe x s)"
proof -
  from expiredItemStep_cases [of now pe x s]
  consider "expiredItemStep now pe x s = s"
    | item where "getItem s x = Some item" "sweepable now item"
        "expiredItemStep now pe x s = removeItem s x"
    by blast
  then show ?thesis
  proof cases
    case 1
    with assms show ?thesis by simp
  next
    case 2
    from assms 2(1) have orig: "getItem ls x = Some item"
      unfolding sweptFrom_def by (metis option.distinct(1))
    show ?thesis
      unfolding sweptFrom_def
    proof
      fix k
      show "getItem (expiredItemStep now pe x s) k = getItem ls k \<or>
          (getItem (expiredItemStep now pe x s) k = None \<and>
           (\<exists>item. getItem ls k = Some item \<and> sweepable now item))"
      proof (cases "k = x")
        case True
        with orig 2 show ?thesis
          by (simp add: getItem_removeItem)
      next
        case False
        with assms 2(3) show ?thesis
          unfolding sweptFrom_def by (simp add: getItem_removeItem)
      qed
    qed
  qed
qed

lemma cleanExpiredItems_sweptFrom: "sweptFrom now ls (cleanExpiredItems now pe ls)"
  unfolding cleanExpiredItems_def
  by (rule fold_invariant) (simp_all add: sweptFrom_def [of now ls ls] sweptFrom_step)

lemma set_and_passed_now_after: "set_and_passed now e \<Longrightarrow> now_after now e"
  by (cases e) simp_all

lemma getCache_sweepable:
  assumes "getItem ls key = Some item" and "sweepable now item"
  shows "fst (getCache now ls key) = None"
  using assms
  by (cases "JSON_parse item")
    (simp_all add: getCache_def sweepable_def set_and_passed_now_after)

lemma getCache_absent: "getItem ls key = None \<Longrightarrow> fst (getCache now ls key) = None"
  by (simp add: getCache_def)

lemma getCache_same_entry:
  "getItem s key = getItem ls key \<Longrightarrow> fst (getCache now s key) = fst (getCache now ls key)"
  by (simp add: getCache_def split: option.splits)

lemma getCache_after_sweep:
  "fst (getCache now (cleanExpiredItems now pe ls) key) = fst (getCache now ls key)"
proof -
  from cleanExpiredItems_sweptFrom [of now ls pe]
  consider "getItem (cleanExpiredItems now pe ls) key = getItem ls key"
    | item where "getItem (cleanExpiredItems now pe ls) key = None"
        "getItem ls key = Some item" "sweepable now item"
    unfolding sweptFrom_def by blast
  then show ?thesis
  proof cases
    case 1
    then show ?thesis by (rule getCache_same_entry)
  next
    case 2
    then show ?thesis
      by (simp add: getCache_absent getCache_sweepable)
  qed
qed

text \<open>
  C1, as amended. For an entry that holds a well-formed envelope (data, timestamp and
  expiration present), \<^verbatim>\<open>getCache\<close> returns absent iff \<open>now > expiration\<close> at call time;
  when the envelope is expired it removes the key and returns absent, and otherwise it
  returns the stored data and leaves the storage as it was. For an entry whose text
  fails to parse it returns absent and leaves the key in place: the read path does not
  delete corrupted entries. What a read returns is the same whether or not a sweep of
  expired items has run before it.
\<close>

theorem getCache_lazy_expiry:
  "(getItem ls key = Some (Text n (Some (JObject (Some d) ts (Some e)))) \<and> 0 < n \<longrightarrow>
      (fst (getCache now ls key) = None \<longleftrightarrow> now > e) \<and>
      (now > e \<longrightarrow> getCache now ls key = (None, removeItem ls key) \<and>
                   getItem (snd (getCache now ls key)) key = None) \<and>
      (\<not> now > e \<longrightarrow> getCache now ls key = (Some d, ls))) \<and>
   (getItem ls key = Some (Text n None) \<longrightarrow>
      getCache now ls key = (None, ls) \<and> getItem (snd (getCache now ls key)) key = Some (Text n None)) \<and>
   fst (getCache now (cleanExpiredItems now pe ls) key) = fst (getCache now ls key)"
proof (intro conjI impI)
  assume a: "getItem ls key = Some (Text n (Some (JObject (Some d) ts (Some e)))) \<and> 0 < n"
  then have eq: "getCache now ls key = (if now > e then (None, removeItem ls key) else (Some d, ls))"
    by (simp add: getCache_envelope)
  show "fst (getCache now ls key) = None \<longleftrightarrow> now > e"
    by (simp add: eq)
  show "getCache now ls key = (None, removeItem ls key)" if "now > e"
    using that by (simp add: eq)
  show "getItem (snd (getCache now ls key)) key = None" if "now > e"
    using that by (simp add: eq getItem_removeItem)
  show "getCache now ls key = (Some d, ls)" if "\<not> now > e"
    using that by (simp add: eq)
next
  assume b: "getItem ls key = Some (Text n None)"
  then show "getCache now ls key = (None, ls)"
    by (rule getCache_unparsable)
  with b show "getItem (snd (getCache now ls key)) key = Some (Text n None)"
    by simp
next
  show "fst (getCache now (cleanExpiredItems now pe ls) key) = fst (getCache now ls key)"
    by (rule getCache_after_sweep)
qed

text \<open>
  Witness: an envelope expiring at 100 is read at 200 (absent, key removed) and at 50
  (data returned), and an unparsable text is read (absent, key kept).
\<close>

theorem getCache_lazy_expiry_witness:
  "getCache 200 [(RECOMMENDATIONS, Text 5 (Some (JObject (Some (7::nat)) (Some 0) (Some 100))))]
      RECOMMENDATIONS = (None, []) \<and>
   getCache 50 [(RECOMMENDATIONS, Text 5 (Some (JObject (Some (7::nat)) (Some 0) (Some 100))))]
      RECOMMENDATIONS
     = (Some 7, [(RECOMMENDATIONS, Text 5 (Some (JObject (Some 7) (Some 0) (Some 100))))]) \<and>
   getCache 50 [(RECOMMENDATIONS, Text 5 (None :: nat json option))] RECOMMENDATIONS
     = (None, [(RECOMMENDATIONS, Text 5 None)])"
proof -
  let ?env = "[(RECOMMENDATIONS, Text 5 (Some (JObject (Some (7::nat)) (Some 0) (Some 100))))]"
  let ?bad = "[(RECOMMENDATIONS, Text 5 (None :: nat json option))]"
  have h1: "getItem ?env RECOMMENDATIONS = Some (Text 5 (Some (JObject (Some 7) (Some 0) (Some 100)))) \<and> (0::nat) < 5"
    by (simp add: getItem_def)
  have h2: "getItem ?bad RECOMMENDATIONS = Some (Text 5 None)"
    by (simp add: getItem_def)
  have r: "removeItem ?env RECOMMENDATIONS = []"
    by (simp add: removeItem_def)
  from getCache_lazy_expiry [of ?env RECOMMENDATIONS 5 7 "Some 0" 100 200] h1
  have a: "getCache 200 ?env RECOMMENDATIONS = (None, [])"
    by (simp add: r)
  from getCache_lazy_expiry [of ?env RECOMMENDATIONS 5 7 "Some 0" 100 50] h1
  have b: "getCache 50 ?env RECOMMENDATIONS = (Some 7, ?env)"
    by simp
  from getCache_lazy_expiry [of ?bad RECOMMENDATIONS 5 _ _ _ 50] h2
  have c: "getCache 50 ?bad RECOMMENDATIONS = (None, ?bad)"
    by simp
  from a b c show ?thesis by simp
qed

text \<open>
  Counterexample to C1 as stated: an entry whose text fails to parse is read as absent
  although no expiration has passed, and the key is still there afterwards.
\<close>

theorem getCache_keeps_corrupted_counterexample:
  "JSON_parse (Text 5 (None :: nat json option)) = None \<and>
   fst (getCache 50 [(RECOMMENDATIONS, Text 5 (None :: nat json option))] RECOMMENDATIONS) = None \<and>
   getItem (snd (getCache 50 [(RECOMMENDATIONS, Text 5 (None :: nat json option))] RECOMMENDATIONS))
      RECOMMENDATIONS = Some (Text 5 None)"
  by (simp add: getCache_def getItem_def truthy_def)

section \<open>Round trip\<close>






section \<open>Translations\<close>

lemma getCachedTranslations_table:
  assumes "getItem ls TRANSLATIONS = Some (Text n (Some (JObject (Some (TranslationTable m)) ts (Some e))))"
    and "0 < n" and "\<not> now > e"
  shows "getCachedTranslations now ls = (Some m, ls)"
  using assms by (simp add: getCachedTranslations_def getCache_envelope)

text \<open>
  C10, as amended. Let the translations entry hold a table \<open>m\<close> that has not expired,
  and let the platform store the write. After \<^verbatim>\<open>cacheTranslation(k, t)\<close>, at every
  time up to \<open>now\<close> plus the 30-day TTL, every other key \<open>k'\<close> reads as it did before
  the call; and the stored envelope holds the table with \<open>k\<close> set, stamped \<open>now\<close> and
  expiring at \<open>now\<close> plus the 30-day TTL, so the one write renews the expiration of all
  entries of the table.
\<close>

theorem cacheTranslation_frame:
  assumes "getItem ls TRANSLATIONS = Some (Text n (Some (JObject (Some (TranslationTable m)) ts (Some e))))"
    and "0 < n" and "\<not> now > e"
  shows "(\<forall>now' k'. k' \<noteq> k \<and> now' \<le> now + EXPIRATION_TRANSLATIONS \<longrightarrow>
            fst (getCachedTranslation now' (cacheTranslation Stored len now ls k t) k')
              = fst (getCachedTranslation now ls k')) \<and>
         map_option JSON_parse (getItem (cacheTranslation Stored len now ls k t) TRANSLATIONS)
           = Some (Some (JObject (Some (TranslationTable (m(k \<mapsto> t)))) (Some now)
                (Some (now + EXPIRATION_TRANSLATIONS))))"
proof -
  let ?ls' = "cacheTranslation Stored len now ls k t"
  have ls': "?ls' = setItem ls TRANSLATIONS
      (stringify len (TranslationTable (m(k \<mapsto> t))) now (now + EXPIRATION_TRANSLATIONS))"
    using assms by (simp add: cacheTranslation_def getCachedTranslations_table setCache_def)
  have before: "getCachedTranslations now ls = (Some m, ls)"
    using assms by (rule getCachedTranslations_table)
  have after: "getCachedTranslations now' ?ls' = (Some (m(k \<mapsto> t)), ?ls')"
    if "now' \<le> now + EXPIRATION_TRANSLATIONS" for now'
    using that
    by (simp add: ls' getCachedTranslations_def getCache_def getItem_setItem truthy_stringify
        JSON_parse_stringify)
  show ?thesis
  proof (intro conjI allI impI)
    fix now' k'
    assume "k' \<noteq> k \<and> now' \<le> now + EXPIRATION_TRANSLATIONS"
    then show "fst (getCachedTranslation now' ?ls' k') = fst (getCachedTranslation now ls k')"
      by (simp add: getCachedTranslation_def after before)
  next
    show "map_option JSON_parse (getItem ?ls' TRANSLATIONS)
           = Some (Some (JObject (Some (TranslationTable (m(k \<mapsto> t)))) (Some now)
                (Some (now + EXPIRATION_TRANSLATIONS))))"
      by (simp add: ls' getItem_setItem JSON_parse_stringify)
  qed
qed

lemma getItem_hello_table:
  "getItem hello_table TRANSLATIONS = Some (Text 40 (Some (JObject
         (Some (TranslationTable [''auto-hi-hello'' \<mapsto> ''namaste''])) (Some 0) (Some 100))))"
  by (simp add: hello_table_def getItem_def)

lemma getCachedTranslation_hello_table:
  "fst (getCachedTranslation 50 hello_table ''auto-hi-hello'') = Some ''namaste''"
  by (simp add: getCachedTranslation_def getCachedTranslations_table [OF getItem_hello_table])

text \<open>
  Witness: the table expiring at 100 receives a second translation at time 50; at time
  200 the first translation is still read.
\<close>

theorem cacheTranslation_frame_witness:
  "fst (getCachedTranslation 200
          (cacheTranslation Stored (\<lambda>v. 1) 50 hello_table ''auto-hi-water'' ''paani'')
          ''auto-hi-hello'') = Some ''namaste'' \<and>
   map_option JSON_parse
     (getItem (cacheTranslation Stored (\<lambda>v. 1) 50 hello_table ''auto-hi-water'' ''paani'') TRANSLATIONS)
     = Some (Some (JObject
         (Some (TranslationTable [''auto-hi-hello'' \<mapsto> ''namaste'', ''auto-hi-water'' \<mapsto> ''paani'']))
         (Some 50) (Some (50 + EXPIRATION_TRANSLATIONS))))"
proof -
  have h2: "(0::nat) < 40" and h3: "\<not> (50::int) > 100" by simp_all
  note inst = cacheTranslation_frame [OF getItem_hello_table h2 h3,
      of "''auto-hi-water''" "\<lambda>v. 1" "''paani''"]
  have a: "(200::int) \<le> 50 + EXPIRATION_TRANSLATIONS"
    by (simp add: EXPIRATION_TRANSLATIONS_def)
  from inst a have "fst (getCachedTranslation 200
          (cacheTranslation Stored (\<lambda>v. 1) 50 hello_table ''auto-hi-water'' ''paani'')
          ''auto-hi-hello'') = fst (getCachedTranslation 50 hello_table ''auto-hi-hello'')"
    by simp
  with inst show ?thesis
    by (simp add: getCachedTranslation_hello_table)
qed

lemma clearExpiredItems_hello_table: "clearExpiredItems 50 hello_table = hello_table"
  by (simp add: hello_table_def clearExpiredItems_def CACHE_KEYS_def getItem_def truthy_def key_defs)

lemma handleStorageQuotaExceeded_hello_table: "handleStorageQuotaExceeded 50 hello_table = []"
  unfolding handleStorageQuotaExceeded_def clearExpiredItems_hello_table
  by (simp add: hello_table_def CACHE_KEYS_def getItem_def truthy_def key_defs timestamp_of_def removeItem_def)

text \<open>
  Counterexample to C10 as stated: when the platform refuses the write with
  \<^verbatim>\<open>QuotaExceededError\<close>, the quota handler removes the older half of the entries, here
  the translations entry itself, so the translation cached before is no longer
  retrievable and no expiration is reset.
\<close>

theorem cacheTranslation_quota_counterexample:
  "fst (getCachedTranslation 50 hello_table ''auto-hi-hello'') = Some ''namaste'' \<and>
   fst (getCachedTranslation 50
          (cacheTranslation QuotaExceededError (\<lambda>v. 1) 50 hello_table ''auto-hi-water'' ''paani'')
          ''auto-hi-hello'') = None \<and>
   getItem (cacheTranslation QuotaExceededError (\<lambda>v. 1) 50 hello_table ''auto-hi-water'' ''paani'')
     TRANSLATIONS = None"
proof -
  have e: "cacheTranslation QuotaExceededError (\<lambda>v. 1) 50 hello_table ''auto-hi-water'' ''paani'' = []"
    by (simp add: cacheTranslation_def getCachedTranslations_table [OF getItem_hello_table]
        setCache_def handleStorageQuotaExceeded_hello_table)
  have "fst (getCachedTranslation 50 ([] :: storage) ''auto-hi-hello'') = None"
    by (simp add: getCachedTranslation_def getCachedTranslations_def getCache_def getItem_def)
  moreover have "getItem ([] :: storage) TRANSLATIONS = None"
    by (simp add: getItem_def)
  ultimately show ?thesis
    unfolding e using getCachedTranslation_hello_table by simp
qed

section \<open>Quota snapshot\<close>

text \<open>
  C9. With an estimate from the platform, the snapshot reports the usage and the quota
  (0 for a missing one), the percentage is usage divided by quota when the quota is
  positive and 0 when the quota is 0, and \<open>nearLimit\<close> says whether the percentage
  exceeds 0.8. When the primitive is missing or its query fails, the snapshot is all
  zeros with \<open>nearLimit\<close> false; no error is raised.
\<close>

theorem getCacheInfo_snapshot:
  "(est = Estimate u q \<longrightarrow>
      used (getCacheInfo est) = (case u of None \<Rightarrow> 0 | Some n \<Rightarrow> n) \<and>
      quota (getCacheInfo est) = (case q of None \<Rightarrow> 0 | Some n \<Rightarrow> n) \<and>
      (0 < quota (getCacheInfo est) \<longrightarrow>
         percentage (getCacheInfo est) = real (used (getCacheInfo est)) / real (quota (getCacheInfo est))) \<and>
      (quota (getCacheInfo est) = 0 \<longrightarrow> percentage (getCacheInfo est) = 0)) \<and>
   nearLimit (getCacheInfo est) = (percentage (getCacheInfo est) > 0.8) \<and>
   (est = Unsupported \<or> est = EstimateFailed \<longrightarrow>
      getCacheInfo est = \<lparr>used = 0, quota = 0, percentage = 0, nearLimit = False\<rparr>)"
  by (cases est) (auto simp add: getCacheInfo_def storageQuotaWarningThreshold_def Let_def)

text \<open>
  Witness: 90 bytes of 100 give 0.9 and \<open>nearLimit\<close>; a missing quota gives 0; a
  missing primitive and a failed query give the zero snapshot.
\<close>

theorem getCacheInfo_snapshot_witness:
  "percentage (getCacheInfo (Estimate (Some 90) (Some 100))) = 0.9 \<and>
   nearLimit (getCacheInfo (Estimate (Some 90) (Some 100))) \<and>
   percentage (getCacheInfo (Estimate (Some 90) None)) = 0 \<and>
   getCacheInfo Unsupported = \<lparr>used = 0, quota = 0, percentage = 0, nearLimit = False\<rparr> \<and>
   getCacheInfo EstimateFailed = \<lparr>used = 0, quota = 0, percentage = 0, nearLimit = False\<rparr>"
proof -
  from getCacheInfo_snapshot [of "Estimate (Some 90) (Some 100)" "Some 90" "Some 100"]
  have a: "percentage (getCacheInfo (Estimate (Some 90) (Some 100))) = 0.9 \<and>
           nearLimit (getCacheInfo (Estimate (Some 90) (Some 100)))"
    by simp
  from getCacheInfo_snapshot [of "Estimate (Some 90) None" "Some 90" None]
  have b: "percentage (getCacheInfo (Estimate (Some 90) None)) = 0"
    by simp
  from getCacheInfo_snapshot [of Unsupported]
  have c: "getCacheInfo Unsupported = \<lparr>used = 0, quota = 0, percentage = 0, nearLimit = False\<rparr>"
    by simp
  from getCacheInfo_snapshot [of EstimateFailed]
  have d: "getCacheInfo EstimateFailed = \<lparr>used = 0, quota = 0, percentage = 0, nearLimit = False\<rparr>"
    by simp
  from a b c d show ?thesis by simp
qed

section \<open>Preload\<close>

lemma processResult_errors:
  "length (errors (processResult (r, i) acc)) = length (errors acc) + (if is_rejected r then 1 else 0)"
  by (cases r) (simp_all add: processResult_def)

lemma fold_processResult_errors:
  "length is = length rs \<Longrightarrow>
   length (errors (fold processResult (zip rs is) acc)) = length (errors acc) + failedCount rs"
proof (induction rs arbitrary: "is" acc)
  case Nil
  then show ?case by (simp add: failedCount_def)
next
  case (Cons r rs)
  then obtain i is' where "is = i # is'" and "length is' = length rs"
    by (cases "is") auto
  with Cons.IH [of is' "processResult (r, i) acc"] show ?case
    by (simp add: processResult_errors failedCount_def)
qed

lemma finishPreload_Stored:
  "success (fst (finishPreload Stored now results ls))
     = (real (failedCount results) \<le> real (length results) / 2)"
  "length (errors (fst (finishPreload Stored now results ls))) = failedCount results"
  by (simp_all add: finishPreload_def updateLastSync_def Let_def fold_processResult_errors)


lemma preloadRecommendationCategories_Fulfilled: "preloadRecommendationCategories pf = Fulfilled"
  by (simp add: preloadRecommendationCategories_def awaitAllSettled_def)

lemma runPreloadTasks_shape:
  "\<exists>r1 r2. fst (runPreloadTasks pf now ls) = [r1, r2, Fulfilled, Fulfilled]"
  by (simp add: runPreloadTasks_def preloadEssentialCacheData_def
      preloadRecommendationCategories_Fulfilled split: prod.splits)

lemma preloadEssentialData_runs:
  "forceRefresh \<or> needsRefresh now ls (60 * 60 * 1000) \<or> onLine pf \<Longrightarrow>
   fst (preloadEssentialData pf forceRefresh now ls)
     = fst (finishPreload (lastSyncWrite pf) now (fst (runPreloadTasks pf now ls))
              (snd (runPreloadTasks pf now ls)))"
  by (auto simp add: preloadEssentialData_def Let_def split: prod.splits)


lemma preloadUserPreferences_Fetched:
  "preferencesResponse pf = Fetched p \<Longrightarrow> fst (preloadUserPreferences pf now ls) = Fulfilled"
  by (simp add: preloadUserPreferences_def split: prod.splits)

lemma preloadPopularRecommendations_Fetched:
  "popularResponse pf = Fetched rs \<Longrightarrow> fst (preloadPopularRecommendations pf now ls) = Fulfilled"
  by (simp add: preloadPopularRecommendations_def split: prod.splits)

lemma runPreloadTasks_Fetched:
  assumes "preferencesResponse pf = Fetched p" and "popularResponse pf = Fetched rs"
  shows "fst (runPreloadTasks pf now ls) = [Fulfilled, Fulfilled, Fulfilled, Fulfilled]"
proof -
  obtain r1 ls1 where t1: "preloadUserPreferences pf now ls = (r1, ls1)"
    by (cases "preloadUserPreferences pf now ls")
  obtain r2 ls2 where t2: "preloadPopularRecommendations pf now ls1 = (r2, ls2)"
    by (cases "preloadPopularRecommendations pf now ls1")
  from preloadUserPreferences_Fetched [OF assms(1), of now ls] t1 have "r1 = Fulfilled"
    by simp
  moreover from preloadPopularRecommendations_Fetched [OF assms(2), of now ls1] t2
  have "r2 = Fulfilled"
    by simp
  ultimately show ?thesis
    by (simp add: runPreloadTasks_def t1 t2 preloadEssentialCacheData_def
        preloadRecommendationCategories_Fulfilled)
qed

lemma runPreloadTasks_sample:
  "fst (runPreloadTasks sample_platform now ls) = [Fulfilled, Fulfilled, Fulfilled, Fulfilled]"
  "fst (runPreloadTasks full_platform now ls) = [Fulfilled, Fulfilled, Fulfilled, Fulfilled]"
  by (rule runPreloadTasks_Fetched; simp add: sample_platform_def full_platform_def)+

lemma failedCount_all_Fulfilled: "failedCount [Fulfilled, Fulfilled, Fulfilled, Fulfilled] = 0"
  by (simp add: failedCount_def)



lemma fold_processResult_four:
  "fold processResult (zip [r1, r2, Fulfilled, Fulfilled] [0..<4]) acc
     = processResult (Fulfilled, 3) (processResult (Fulfilled, 2)
         (processResult (r2, 1) (processResult (r1, 0) acc)))"
  by (simp add: upt_rec [of 0] upt_rec [of 1] upt_rec [of 2] upt_rec [of 3] upt_rec [of "Suc 0"]
      upt_rec [of "Suc (Suc 0)"] eval_nat_numeral)

text \<open>
  C4, as amended. In every run of \<^verbatim>\<open>preloadEssentialData\<close> that reaches its four tasks
  and stores the last-sync marker, the per-category task is fulfilled whatever its
  fetches did (each per-category failure is caught and logged), so its name is among
  the preloaded items and no error is recorded for it; when the first two tasks are
  fulfilled as well, the result has \<open>success = true\<close>, no errors, and all four task
  names as preloaded items.
\<close>

theorem preload_category_failures_swallowed:
  assumes "lastSyncWrite pf = Stored"
    and "forceRefresh \<or> needsRefresh now ls (60 * 60 * 1000) \<or> onLine pf"
  shows "preloadRecommendationCategories pf = Fulfilled \<and>
         fst (runPreloadTasks pf now ls) ! 2 = Fulfilled \<and>
         ''Recommendation Categories'' \<in> set (preloadedItems (fst (preloadEssentialData pf forceRefresh now ls))) \<and>
         (fst (runPreloadTasks pf now ls) ! 0 = Fulfilled \<and> fst (runPreloadTasks pf now ls) ! 1 = Fulfilled \<longrightarrow>
            success (fst (preloadEssentialData pf forceRefresh now ls)) \<and>
            errors (fst (preloadEssentialData pf forceRefresh now ls)) = [] \<and>
            preloadedItems (fst (preloadEssentialData pf forceRefresh now ls)) = taskNames)"
proof -
  obtain r1 r2 where rs: "fst (runPreloadTasks pf now ls) = [r1, r2, Fulfilled, Fulfilled]"
    using runPreloadTasks_shape by blast
  let ?r = "fst (preloadEssentialData pf forceRefresh now ls)"
  have r: "?r = fst (finishPreload Stored now [r1, r2, Fulfilled, Fulfilled] (snd (runPreloadTasks pf now ls)))"
    using assms by (simp add: preloadEssentialData_runs rs)
  have items: "''Recommendation Categories'' \<in> set (preloadedItems ?r)"
    unfolding r
    by (cases r1; cases r2)
      (simp_all add: finishPreload_def updateLastSync_def Let_def fold_processResult_four
        processResult_def taskName_def taskNames_def)
  have all: "success ?r \<and> errors ?r = [] \<and> preloadedItems ?r = taskNames"
    if "r1 = Fulfilled" "r2 = Fulfilled"
    unfolding r that
    by (simp add: finishPreload_def updateLastSync_def Let_def fold_processResult_four
        processResult_def taskName_def taskNames_def)
  from items all show ?thesis
    by (simp add: preloadRecommendationCategories_Fulfilled rs)
qed

text \<open>
  Witness: every per-category fetch fails, nothing is cached, the other fetches
  succeed.
\<close>

theorem preload_category_failures_swallowed_witness:
  "categoryResponse sample_platform ''street_food'' = FetchFailed ''Error: Failed to fetch recommendations'' \<and>
   success (fst (preloadEssentialData sample_platform True 1000 [])) \<and>
   errors (fst (preloadEssentialData sample_platform True 1000 [])) = [] \<and>
   preloadedItems (fst (preloadEssentialData sample_platform True 1000 [])) = taskNames"
proof -
  have s: "lastSyncWrite sample_platform = Stored"
    by (simp add: sample_platform_def)
  have t: "True \<or> needsRefresh 1000 ([] :: storage) (60 * 60 * 1000) \<or> onLine sample_platform"
    by simp
  from preload_category_failures_swallowed [OF s t]
  have "success (fst (preloadEssentialData sample_platform True 1000 [])) \<and>
   errors (fst (preloadEssentialData sample_platform True 1000 [])) = [] \<and>
   preloadedItems (fst (preloadEssentialData sample_platform True 1000 [])) = taskNames"
    by (simp add: runPreloadTasks_sample)
  moreover have "categoryResponse sample_platform ''street_food''
      = FetchFailed ''Error: Failed to fetch recommendations''"
    by (simp add: sample_platform_def)
  ultimately show ?thesis by blast
qed

text \<open>
  Counterexample to C4 as stated: every per-category fetch fails with nothing cached and
  the other three tasks succeed; the result is a success with no error at all, not
  one.
\<close>

theorem preload_category_error_count_counterexample:
  "(\<forall>c. categoryResponse sample_platform c = FetchFailed ''Error: Failed to fetch recommendations'') \<and>
   getItem ([] :: storage) RECOMMENDATIONS = None \<and>
   success (fst (preloadEssentialData sample_platform True 1000 [])) \<and>
   length (errors (fst (preloadEssentialData sample_platform True 1000 []))) = 0"
proof -
  have s: "lastSyncWrite sample_platform = Stored"
    by (simp add: sample_platform_def)
  have "fst (preloadEssentialData sample_platform True 1000 [])
      = fst (finishPreload Stored 1000 [Fulfilled, Fulfilled, Fulfilled, Fulfilled]
               (snd (runPreloadTasks sample_platform 1000 [])))"
    by (simp add: preloadEssentialData_runs runPreloadTasks_sample s)
  then have a: "success (fst (preloadEssentialData sample_platform True 1000 [])) \<and>
   length (errors (fst (preloadEssentialData sample_platform True 1000 []))) = 0"
    by (simp add: finishPreload_Stored failedCount_all_Fulfilled)
  have b: "\<forall>c. categoryResponse sample_platform c = FetchFailed ''Error: Failed to fetch recommendations''"
    by (simp add: sample_platform_def)
  have c: "getItem ([] :: storage) RECOMMENDATIONS = None"
    by (simp add: getItem_def)
  from a b c show ?thesis by blast
qed

section \<open>Cleanup\<close>

lemma cleanExpiredItems_frame:
  assumes "\<not> startsWith k cache_prefix \<or> (pe \<and> isEssentialKey k)"
  shows "getItem (cleanExpiredItems now pe ls) k = getItem ls k"
  unfolding cleanExpiredItems_def
  using assms
  by (intro fold_frame) (auto simp add: expiredItemStep_def getItem_removeItem split: option.splits)

lemma eligibleKeys_iff:
  "key \<in> set (eligibleKeys pe ls) \<longleftrightarrow>
     key \<in> set (Object_keys ls) \<and> startsWith key cache_prefix \<and>
     (\<not> pe \<or> \<not> isEssentialKey key)"
  by (auto simp add: eligibleKeys_def)

lemma not_eligible:
  assumes "\<not> startsWith k cache_prefix \<or> (pe \<and> isEssentialKey k)"
  shows "k \<notin> set (eligibleKeys pe ls)"
  using assms by (auto simp add: eligibleKeys_iff)

lemma in_map_filterD:
  "y \<in> set (List.map_filter g xs) \<Longrightarrow> \<exists>x \<in> set xs. g x = Some y"
  by (auto simp add: List.map_filter_def)

lemma cleanByAge_frame:
  assumes "\<not> startsWith k cache_prefix \<or> (pe \<and> isEssentialKey k)"
  shows "getItem (cleanByAge now age pe ls) k = getItem ls k"
proof -
  have "k \<notin> set (eligibleKeys pe ls)"
    using assms by (rule not_eligible)
  then show ?thesis
    unfolding cleanByAge_def Let_def
    by (intro fold_frame)
      (auto simp add: getItem_removeItem dest!: in_map_filterD split: option.splits if_splits)
qed

lemma removeUntilUnder_frame:
  "k \<notin> fst ` set items \<Longrightarrow> getItem (removeUntilUnder limit cur items ls) k = getItem ls k"
  by (induction limit cur items ls rule: removeUntilUnder.induct)
    (auto simp add: getItem_removeItem)

lemma cleanBySize_frame:
  assumes "\<not> startsWith k cache_prefix \<or> (pe \<and> isEssentialKey k)"
  shows "getItem (cleanBySize limit pe ls) k = getItem ls k"
proof -
  have "k \<notin> set (eligibleKeys pe ls)"
    using assms by (rule not_eligible)
  then show ?thesis
    unfolding cleanBySize_def Let_def
    by (intro removeUntilUnder_frame)
      (auto dest!: in_map_filterD split: option.splits if_splits)
qed

lemma performEmergencyCleanup_frame:
  assumes "\<not> startsWith k cache_prefix \<or> isEssentialKey k"
  shows "getItem (performEmergencyCleanup ls) k = getItem ls k"
  unfolding performEmergencyCleanup_def
  using assms by (intro fold_frame) (auto simp add: getItem_removeItem)

lemma performCleanup_frame:
  assumes "\<not> startsWith k cache_prefix \<or> (preserveEssential options \<noteq> Some False \<and> isEssentialKey k)"
  shows "getItem (performCleanup est1 est2 now options ls) k = getItem ls k"
proof -
  let ?p = "case preserveEssential options of None \<Rightarrow> True | Some b \<Rightarrow> b"
  from assms have "\<not> startsWith k cache_prefix \<or> (?p \<and> isEssentialKey k)"
    by (auto split: option.splits)
  then show ?thesis
    by (simp add: performCleanup_def Let_def cleanExpiredItems_frame cleanByAge_frame
        cleanBySize_frame)
qed

lemma startsWith_keys:
  "startsWith RECOMMENDATIONS cache_prefix" "startsWith ESSENTIAL_DATA cache_prefix"
  "startsWith TRANSLATIONS cache_prefix" "startsWith LAST_SYNC cache_prefix"
  "\<not> startsWith USER_PREFERENCES cache_prefix"
  by (simp_all add: startsWith_def cache_prefix_def key_defs)

lemma includesStr_self: "includesStr s s"
  by (cases s) (simp_all add: startsWith_def)

lemma isEssentialKeyI:
  "e \<in> set [''userPreferences'', ''local-guide-essential-data'', ''local-guide-last-sync''] \<Longrightarrow>
   includesStr key e \<Longrightarrow> isEssentialKey key"
  unfolding isEssentialKey_def list_ex_iff by blast

lemma isEssentialKey_essential:
  "isEssentialKey ESSENTIAL_DATA" "isEssentialKey LAST_SYNC" "isEssentialKey USER_PREFERENCES"
  unfolding key_defs by (rule isEssentialKeyI [OF _ includesStr_self], simp)+

lemma not_isEssentialKey_RECOMMENDATIONS: "\<not> isEssentialKey RECOMMENDATIONS"
  by (simp add: isEssentialKey_def RECOMMENDATIONS_def startsWith_def)

text \<open>
  C2, as amended. For every call of \<^verbatim>\<open>performCleanup\<close> whose \<open>preserveEssential\<close> is
  true or left to its default, and for each of its three phases run with
  \<open>preserveEssential\<close> set, the entry under an essential key is the same after the call
  as before it, whatever its text: expired, live or unparsable. An essential key is
  skipped before its text is read, so a corrupted essential entry is kept as well.
\<close>

theorem performCleanup_preserves_essential:
  assumes "preserveEssential options \<noteq> Some False" and "isEssentialKey key"
  shows "getItem (performCleanup est1 est2 now options ls) key = getItem ls key \<and>
         getItem (cleanExpiredItems now True ls) key = getItem ls key \<and>
         getItem (cleanByAge now age True ls) key = getItem ls key \<and>
         getItem (cleanBySize limit True ls) key = getItem ls key"
  using assms
  by (simp add: performCleanup_frame cleanExpiredItems_frame cleanByAge_frame cleanBySize_frame)

lemma getItem_corrupted_pair:
  "getItem corrupted_pair ESSENTIAL_DATA = Some (Text 5 None)"
  by (simp add: corrupted_pair_def getItem_def)

text \<open>
  Witness: with the platform reporting 95 percent of the quota used, all three phases
  run, and the essential-data entry is still there.
\<close>

theorem performCleanup_preserves_essential_witness:
  "isEssentialKey ESSENTIAL_DATA \<and>
   getItem (performCleanup over_limit over_limit 1000 preserving corrupted_pair) ESSENTIAL_DATA
     = Some (Text 5 None)"
proof -
  have p: "preserveEssential preserving \<noteq> Some False"
    by (simp add: preserving_def)
  from performCleanup_preserves_essential [OF p isEssentialKey_essential(1),
      where ?est1.0 = over_limit and ?est2.0 = over_limit and now = 1000 and ls = corrupted_pair]
  show ?thesis
    by (simp add: getItem_corrupted_pair isEssentialKey_essential)
qed

lemma cleanExpiredItems_corrupted_pair:
  "cleanExpiredItems 1000 True corrupted_pair = [(ESSENTIAL_DATA, Text 5 None)]"
proof -
  have k: "Object_keys corrupted_pair = [ESSENTIAL_DATA, RECOMMENDATIONS]"
    by (simp add: corrupted_pair_def Object_keys_def)
  have r: "getItem corrupted_pair RECOMMENDATIONS = Some (Text 5 None)"
    by (simp add: corrupted_pair_def getItem_def key_defs)
  have d: "removeItem corrupted_pair RECOMMENDATIONS = [(ESSENTIAL_DATA, Text 5 None)]"
    by (simp add: corrupted_pair_def removeItem_def key_defs)
  show ?thesis
    by (simp add: cleanExpiredItems_def expiredItemStep_def k startsWith_keys
        isEssentialKey_essential not_isEssentialKey_RECOMMENDATIONS r d truthy_def)
qed

text \<open>
  Counterexample to C2 as stated: the essential-data entry holds a text that fails to
  parse, \<^verbatim>\<open>performCleanup({preserveEssential: true})\<close> runs all three phases, and the
  entry is not removed; the equally corrupted recommendations entry is removed by the
  first phase.
\<close>

theorem cleanup_keeps_corrupted_essential_counterexample:
  "isEssentialKey ESSENTIAL_DATA \<and>
   JSON_parse (Text 5 (None :: nat json option)) = None \<and>
   getItem corrupted_pair ESSENTIAL_DATA = Some (Text 5 None) \<and>
   getItem (performCleanup over_limit over_limit 1000 preserving corrupted_pair) ESSENTIAL_DATA
     = Some (Text 5 None) \<and>
   getItem (cleanExpiredItems 1000 True corrupted_pair) ESSENTIAL_DATA = Some (Text 5 None) \<and>
   getItem (cleanExpiredItems 1000 True corrupted_pair) RECOMMENDATIONS = None"
proof -
  have p: "\<not> startsWith ESSENTIAL_DATA cache_prefix \<or>
           (preserveEssential preserving \<noteq> Some False \<and> isEssentialKey ESSENTIAL_DATA)"
    by (simp add: preserving_def isEssentialKey_essential)
  have "getItem (performCleanup over_limit over_limit 1000 preserving corrupted_pair) ESSENTIAL_DATA
     = Some (Text 5 None)"
    by (simp add: performCleanup_frame [OF p] getItem_corrupted_pair)
  moreover have "getItem (cleanExpiredItems 1000 True corrupted_pair) ESSENTIAL_DATA = Some (Text 5 None)"
    "getItem (cleanExpiredItems 1000 True corrupted_pair) RECOMMENDATIONS = None"
    by (simp_all add: cleanExpiredItems_corrupted_pair getItem_def key_defs)
  ultimately show ?thesis
    by (simp add: isEssentialKey_essential getItem_corrupted_pair)
qed

lemma getCacheStats_unprefixed:
  assumes "\<not> startsWith key cache_prefix"
  shows "getCacheStats now (removeItem ls key) = getCacheStats now ls"
proof -
  let ?ks = "filter (\<lambda>k. startsWith k cache_prefix) (Object_keys ls)"
  have ks: "filter (\<lambda>k. startsWith k cache_prefix) (Object_keys (removeItem ls key)) = ?ks"
    using assms by (induction ls) (auto simp add: Object_keys_def removeItem_def)
  have step: "statsStep now (removeItem ls key) k = statsStep now ls k" if "k \<in> set ?ks" for k
  proof -
    from that assms have "k \<noteq> key" by auto
    then show ?thesis
      by (intro ext) (simp add: statsStep_def getItem_removeItem)
  qed
  have "fold (statsStep now (removeItem ls key)) ?ks init = fold (statsStep now ls) ?ks init" for init
    by (rule fold_cong) (simp_all add: step)
  then show ?thesis
    by (simp add: getCacheStats_def ks Let_def)
qed

text \<open>
  C6, as amended. The keys of the recommendations, essential-data, translations and
  last-sync domains start with the prefix \<^verbatim>\<open>local-guide-\<close>; the key of the user
  preferences, \<^verbatim>\<open>userPreferences\<close>, does not. Every routine of the Cache Manager that
  selects keys by the prefix leaves the entry of a key without the prefix as it is, and
  the statistics are the same with and without such an entry: these routines never
  observe the user preferences.
\<close>

theorem prefix_selection_skips_unprefixed:
  "startsWith RECOMMENDATIONS cache_prefix \<and> startsWith ESSENTIAL_DATA cache_prefix \<and>
   startsWith TRANSLATIONS cache_prefix \<and> startsWith LAST_SYNC cache_prefix \<and>
   \<not> startsWith USER_PREFERENCES cache_prefix \<and>
   (\<forall>key. \<not> startsWith key cache_prefix \<longrightarrow>
      getItem (cleanExpiredItems now pe ls) key = getItem ls key \<and>
      getItem (cleanByAge now age pe ls) key = getItem ls key \<and>
      getItem (cleanBySize limit pe ls) key = getItem ls key \<and>
      getItem (performEmergencyCleanup ls) key = getItem ls key \<and>
      getItem (performCleanup est1 est2 now options ls) key = getItem ls key \<and>
      getCacheStats now (removeItem ls key) = getCacheStats now ls)"
  by (simp add: startsWith_keys cleanExpiredItems_frame cleanByAge_frame cleanBySize_frame
      performEmergencyCleanup_frame performCleanup_frame getCacheStats_unprefixed)

lemma getItem_preferences_only: "getItem preferences_only USER_PREFERENCES = Some stale_envelope"
  by (simp add: preferences_only_def getItem_def)

lemma removeItem_preferences_only: "removeItem preferences_only USER_PREFERENCES = []"
  by (simp add: preferences_only_def removeItem_def)

lemma getCacheStats_Nil:
  "getCacheStats now [] =
     \<lparr>totalItems = 0, totalSize = 0, oldestItem = None, newestItem = None, expiredItems = 0\<rparr>"
  by (simp add: getCacheStats_def Object_keys_def)

text \<open>
  Witness: a storage holding only an expired user-preferences envelope keeps it through
  the sweep without preservation and through the emergency cleanup, and its statistics
  are those of the empty storage.
\<close>

theorem prefix_selection_skips_unprefixed_witness:
  "getItem (cleanExpiredItems 1000 False preferences_only) USER_PREFERENCES = Some stale_envelope \<and>
   getItem (performEmergencyCleanup preferences_only) USER_PREFERENCES = Some stale_envelope \<and>
   getCacheStats 1000 preferences_only =
     \<lparr>totalItems = 0, totalSize = 0, oldestItem = None, newestItem = None, expiredItems = 0\<rparr>"
proof -
  note inst = prefix_selection_skips_unprefixed [where now = 1000 and pe = False
      and ls = preferences_only]
  from inst have u: "\<not> startsWith USER_PREFERENCES cache_prefix"
    by simp
  from inst u have "getItem (cleanExpiredItems 1000 False preferences_only) USER_PREFERENCES
      = getItem preferences_only USER_PREFERENCES"
    and "getItem (performEmergencyCleanup preferences_only) USER_PREFERENCES
      = getItem preferences_only USER_PREFERENCES"
    and "getCacheStats 1000 (removeItem preferences_only USER_PREFERENCES)
      = getCacheStats 1000 preferences_only"
    by blast+
  then show ?thesis
    by (simp add: getItem_preferences_only removeItem_preferences_only getCacheStats_Nil)
qed

lemma getCacheStats_recommendations_only:
  "getCacheStats 1000 recommendations_only =
     \<lparr>totalItems = 1, totalSize = 60, oldestItem = Some 10, newestItem = Some 10, expiredItems = 1\<rparr>"
proof -
  have k: "Object_keys recommendations_only = [RECOMMENDATIONS]"
    by (simp add: recommendations_only_def Object_keys_def)
  have g: "getItem recommendations_only RECOMMENDATIONS = Some stale_envelope"
    by (simp add: recommendations_only_def getItem_def)
  show ?thesis
    by (simp add: getCacheStats_def k startsWith_keys statsStep_def g stale_envelope_def truthy_def)
qed

text \<open>
  Counterexample to C6 as stated: the key of the user preferences lacks the prefix; an
  expired envelope under it is neither counted by the statistics nor removed by the sweep
  of expired items, while the same envelope under the recommendations key is counted as
  one item, expired.
\<close>

theorem user_preferences_unobserved_counterexample:
  "\<not> startsWith USER_PREFERENCES cache_prefix \<and>
   totalItems (getCacheStats 1000 preferences_only) = 0 \<and>
   expiredItems (getCacheStats 1000 preferences_only) = 0 \<and>
   totalItems (getCacheStats 1000 recommendations_only) = 1 \<and>
   expiredItems (getCacheStats 1000 recommendations_only) = 1 \<and>
   getItem (cleanExpiredItems 1000 False preferences_only) USER_PREFERENCES = Some stale_envelope"
proof -
  have "getCacheStats 1000 (removeItem preferences_only USER_PREFERENCES)
      = getCacheStats 1000 preferences_only"
    by (rule getCacheStats_unprefixed) (rule startsWith_keys)
  then have "getCacheStats 1000 preferences_only =
     \<lparr>totalItems = 0, totalSize = 0, oldestItem = None, newestItem = None, expiredItems = 0\<rparr>"
    by (simp add: removeItem_preferences_only getCacheStats_Nil)
  moreover have "getItem (cleanExpiredItems 1000 False preferences_only) USER_PREFERENCES
      = Some stale_envelope"
    by (simp add: cleanExpiredItems_frame startsWith_keys getItem_preferences_only)
  ultimately show ?thesis
    by (simp add: startsWith_keys getCacheStats_recommendations_only)
qed

section \<open>Storage health\<close>

lemma getCacheStats_synced_storage:
  "getCacheStats 1730000000000 synced_storage =
     \<lparr>totalItems = 2, totalSize = 93, oldestItem = Some 0, newestItem = Some 1729136000000,
      expiredItems = 0\<rparr>"
proof -
  have k: "Object_keys synced_storage = [LAST_SYNC, TRANSLATIONS]"
    by (simp add: synced_storage_def Object_keys_def)
  have g: "getItem synced_storage LAST_SYNC = Some (Text 13 (Some (JNumber 1729999000000)))"
    "getItem synced_storage TRANSLATIONS = Some old_translations"
    by (simp_all add: synced_storage_def getItem_def key_defs)
  show ?thesis
    by (simp add: getCacheStats_def k startsWith_keys statsStep_def g old_translations_def
        truthy_def)
qed

lemma getCacheStats_unsynced_storage:
  "getCacheStats 1730000000000 unsynced_storage =
     \<lparr>totalItems = 1, totalSize = 80, oldestItem = Some 1729136000000, newestItem = Some 1729136000000,
      expiredItems = 0\<rparr>"
proof -
  have k: "Object_keys unsynced_storage = [TRANSLATIONS]"
    by (simp add: unsynced_storage_def Object_keys_def)
  have g: "getItem unsynced_storage TRANSLATIONS = Some old_translations"
    by (simp add: unsynced_storage_def getItem_def)
  show ?thesis
    by (simp add: getCacheStats_def k startsWith_keys statsStep_def g old_translations_def
        truthy_def)
qed

text \<open>
  C8, at the input where the code departs from it. The storage holds the last-sync
  marker, which has no timestamp field, and a translations envelope written more than
  seven days before \<open>now\<close>. The statistics report 0 as the oldest timestamp, the guard
  \<^verbatim>\<open>cacheStats.oldestItem && ...\<close> takes 0 for absent, and no age warning is given;
  without the marker the warning is there. The other parts of C8 hold and are the
  lemmas that follow.
\<close>

theorem checkStorageHealth_age_warning_masked:
  "getItem synced_storage TRANSLATIONS = Some old_translations \<and>
   field_timestamp (JObject (Some (0::nat)) (Some 1729136000000) (Some 1731728000000)) = Some 1729136000000 \<and>
   1730000000000 - 1729136000000 > SEVEN_DAYS \<and>
   oldestItem (getCacheStats 1730000000000 synced_storage) = Some 0 \<and>
   warnings (checkStorageHealth Unsupported 1730000000000 synced_storage) = [] \<and>
   warnings (checkStorageHealth Unsupported 1730000000000 unsynced_storage)
     = [''Some cache items are very old (>7 days)'']"
proof -
  have "getItem synced_storage TRANSLATIONS = Some old_translations"
    by (simp add: synced_storage_def getItem_def key_defs)
  moreover have "warnings (checkStorageHealth Unsupported 1730000000000 synced_storage) = []"
    by (simp add: checkStorageHealth_def getCacheStats_synced_storage getCacheInfo_def)
  moreover have "warnings (checkStorageHealth Unsupported 1730000000000 unsynced_storage)
     = [''Some cache items are very old (>7 days)'']"
    by (simp add: checkStorageHealth_def getCacheStats_unsynced_storage getCacheInfo_def
        SEVEN_DAYS_def)
  ultimately show ?thesis
    by (simp add: getCacheStats_synced_storage SEVEN_DAYS_def)
qed

lemma checkStorageHealth_healthy:
  "healthy (checkStorageHealth est now ls) = (\<not> percentage (getCacheInfo est) > 0.9)"
  by (simp add: checkStorageHealth_def Let_def)

lemma checkStorageHealth_paired:
  "length (recommendations (checkStorageHealth est now ls))
     = length (warnings (checkStorageHealth est now ls))"
  by (simp add: checkStorageHealth_def Let_def)

lemma checkStorageHealth_critical:
  "percentage (getCacheInfo est) > 0.9 \<Longrightarrow>
   \<not> healthy (checkStorageHealth est now ls) \<and>
   ''Storage is nearly full (>90%)'' \<in> set (warnings (checkStorageHealth est now ls))"
  by (simp add: checkStorageHealth_def Let_def)

lemma checkStorageHealth_advisory:
  "percentage (getCacheInfo est) > 0.8 \<Longrightarrow> \<not> percentage (getCacheInfo est) > 0.9 \<Longrightarrow>
   healthy (checkStorageHealth est now ls) \<and>
   ''Storage usage is high (>80%)'' \<in> set (warnings (checkStorageHealth est now ls))"
  by (simp add: checkStorageHealth_def Let_def)

lemma checkStorageHealth_expired:
  "expiredItems (getCacheStats now ls) > 10 \<Longrightarrow>
   string_of_nat (expiredItems (getCacheStats now ls)) @ '' expired cache items found''
     \<in> set (warnings (checkStorageHealth est now ls))"
  by (simp add: checkStorageHealth_def Let_def)

lemma checkStorageHealth_age:
  "oldestItem (getCacheStats now ls) = Some t \<Longrightarrow> t \<noteq> 0 \<Longrightarrow> now - t > SEVEN_DAYS \<Longrightarrow>
   ''Some cache items are very old (>7 days)'' \<in> set (warnings (checkStorageHealth est now ls))"
  by (simp add: checkStorageHealth_def Let_def)

lemma checkStorageHealth_scenario:
  "percentage (getCacheInfo (Estimate (Some 95) (Some 100))) = 0.95 \<and>
   \<not> healthy (checkStorageHealth (Estimate (Some 95) (Some 100)) now ls) \<and>
   ''Storage is nearly full (>90%)''
     \<in> set (warnings (checkStorageHealth (Estimate (Some 95) (Some 100)) now ls))"
proof -
  have p: "percentage (getCacheInfo (Estimate (Some 95) (Some 100))) = 0.95"
    by (simp add: getCacheInfo_def)
  then have "percentage (getCacheInfo (Estimate (Some 95) (Some 100))) > 0.9"
    by simp
  from checkStorageHealth_critical [OF this] p show ?thesis by simp
qed

section \<open>Offline recommendations\<close>




lemma toLowerCase_idem: "toLowerCase (toLowerCase s) = toLowerCase s"
proof -
  have "toLowerCase_char (toLowerCase_char c) = toLowerCase_char c" for c
    by (simp add: toLowerCase_char_def Let_def)
  then show ?thesis
    by (simp add: toLowerCase_def)
qed

















end
